theory Spec2Isabelle
  imports Main
begin

section \<open>The RADIUS agent (agents/radagent.go)\<close>

subsection \<open>Constants\<close>

text \<open>
  The constants of package \<open>agents\<close> are declared in radagent.go. Those of package
  \<open>utils\<close> are declared outside the files at hand; their values are the tokens of the
  flags vocabulary. No theorem below depends on the spelling of a constant, only on the
  ten action tokens being pairwise different.
\<close>

definition MetaRadReqType :: string where "MetaRadReqType = ''*radReqType''"
definition MetaRadAuth :: string where "MetaRadAuth = ''*radAuth''"

definition MetaDryRun :: string where "MetaDryRun = ''*dryrun''"
definition MetaAuthorize :: string where "MetaAuthorize = ''*authorize''"
definition MetaInitiate :: string where "MetaInitiate = ''*initiate''"
definition MetaUpdate :: string where "MetaUpdate = ''*update''"
definition MetaTerminate :: string where "MetaTerminate = ''*terminate''"
definition MetaMessage :: string where "MetaMessage = ''*message''"
definition MetaCDRs :: string where "MetaCDRs = ''*cdrs''"
definition MetaEvent :: string where "MetaEvent = ''*event''"
definition META_NONE :: string where "META_NONE = ''*none''"
definition MetaRadauth :: string where "MetaRadauth = ''*radauth''"

definition MetaContinue :: string where "MetaContinue = ''*continue''"
definition MetaLog :: string where "MetaLog = ''*log''"
definition MetaDispatchers :: string where "MetaDispatchers = ''*dispatchers''"
definition MetaAttributes :: string where "MetaAttributes = ''*attributes''"
definition MetaThresholds :: string where "MetaThresholds = ''*thresholds''"
definition MetaStats :: string where "MetaStats = ''*stats''"
definition MetaResources :: string where "MetaResources = ''*resources''"
definition MetaAccounts :: string where "MetaAccounts = ''*accounts''"
definition MetaRoutes :: string where "MetaRoutes = ''*routes''"
definition MetaRoutesIgnoreErrors :: string where
  "MetaRoutesIgnoreErrors = ''*routes_ignore_errors''"
definition MetaRoutesEventCost :: string where "MetaRoutesEventCost = ''*routes_event_cost''"
definition MetaFD :: string where "MetaFD = ''*fd''"
definition MetaAuth :: string where "MetaAuth = ''*auth''"
definition MetaInit :: string where "MetaInit = ''*init''"

definition Usage :: string where "Usage = ''Usage''"
definition Error :: string where "Error = ''Error''"
definition RemoteHost :: string where "RemoteHost = ''RemoteHost''"
definition RadauthFailed :: string where "RadauthFailed = ''RADAUTH_FAILED''"
definition RalsErrorPrfx :: string where "RalsErrorPrfx = ''RALS_ERROR''"

definition SessionSv1AuthorizeEvent :: string where
  "SessionSv1AuthorizeEvent = ''SessionSv1.AuthorizeEvent''"
definition SessionSv1InitiateSession :: string where
  "SessionSv1InitiateSession = ''SessionSv1.InitiateSession''"
definition SessionSv1UpdateSession :: string where
  "SessionSv1UpdateSession = ''SessionSv1.UpdateSession''"
definition SessionSv1TerminateSession :: string where
  "SessionSv1TerminateSession = ''SessionSv1.TerminateSession''"
definition SessionSv1ProcessMessage :: string where
  "SessionSv1ProcessMessage = ''SessionSv1.ProcessMessage''"
definition SessionSv1ProcessEvent :: string where
  "SessionSv1ProcessEvent = ''SessionSv1.ProcessEvent''"
definition SessionSv1ProcessCDR :: string where
  "SessionSv1ProcessCDR = ''SessionSv1.ProcessCDR''"

subsection \<open>Data\<close>

text \<open>A Go \<open>interface{}\<close> value, as far as the agent stores one in an event.\<close>

datatype iface = IString string | IInt int | IDuration int

text \<open>
  \<open>utils.FlagsWithParams\<close> is a Go map from a flag to its parameters. \<open>HasKey\<close> is the
  membership test of that map and \<open>ParamsSlice\<close> reads the parameters.
\<close>

type_synonym FlagsWithParams = "(string \<times> string list) list"

definition HasKey :: "FlagsWithParams \<Rightarrow> string \<Rightarrow> bool" where
  "HasKey flags k = (map_of flags k \<noteq> None)"

definition ParamsSlice :: "FlagsWithParams \<Rightarrow> string \<Rightarrow> string list" where
  "ParamsSlice flags k = (case map_of flags k of None \<Rightarrow> [] | Some ps \<Rightarrow> ps)"

text \<open>
  Modelled from the spec: \<open>utils.FlagsWithParams.GetBool\<close> is not among the source files.
  The spec reads \<open>Flags.GetBool(*continue)\<close> as "flags include \<open>*continue\<close>".
\<close>

definition GetBool :: "FlagsWithParams \<Rightarrow> string \<Rightarrow> bool" where
  "GetBool flags k = HasKey flags k"

type_synonym FCTemplate = string
type_synonym NavMap = "(string \<times> iface) list"
type_synonym ArgDispatcher = string
type_synonym Paginator = string

record RequestProcessor =
  ID :: string
  Tenant :: string
  Timezone :: string
  Filters :: "string list"
  Flags :: FlagsWithParams
  RequestFields :: "FCTemplate list"
  ReplyFields :: "FCTemplate list"

record CGREvent =
  cgrTenant :: string
  Event :: "string \<rightharpoonup> iface"

text \<open>
  The agent request: the sub-trees \<open>*vars\<close>, \<open>*cgreq\<close>, \<open>*cgrep\<close>, \<open>*rep\<close> and \<open>*opts\<close>.
  (\<open>*req\<close> is the packet itself, which is passed along unchanged.)
\<close>

record AgentRequest =
  agTenant :: string
  Vars :: "string \<rightharpoonup> iface"
  CGRRequest :: NavMap
  CGRReply :: "string \<rightharpoonup> iface"
  Reply :: NavMap
  Opts :: NavMap

datatype PacketCode = AccessRequest | AccessAccept | AccountingRequest | AccountingResponse

record Packet =
  RemoteAddr :: string
  Code :: PacketCode
  AVPs :: "(string \<times> string) list"

text \<open>\<open>utils.ExtractedArgs\<close>: both fields are pointers, \<open>None\<close> is \<open>nil\<close>.\<close>

record ExtractedArgs =
  ArgDispatcher :: "ArgDispatcher option"
  RoutePaginator :: "Paginator option"

text \<open>
  The request envelopes. Each constructor carries the arguments that processRequest hands
  to the constructor function of package \<open>sessions\<close>, in the order of the call.
  \<open>V1ProcessEventArgs\<close> carries the processor's flags (the code passes
  \<open>Flags.SliceFlags()\<close>).
\<close>

datatype rpcArgs =
    V1AuthorizeArgs bool "string list" bool "string list" bool "string list"
      bool bool bool bool bool CGREvent "ArgDispatcher option" Paginator bool NavMap
  | V1InitSessionArgs bool "string list" bool "string list" bool "string list"
      bool bool CGREvent "ArgDispatcher option" bool NavMap
  | V1UpdateSessionArgs bool "string list" bool CGREvent "ArgDispatcher option" bool NavMap
  | V1TerminateSessionArgs bool bool bool "string list" bool "string list"
      CGREvent "ArgDispatcher option" bool NavMap
  | V1ProcessMessageArgs bool "string list" bool "string list" bool "string list"
      bool bool bool bool bool CGREvent "ArgDispatcher option" Paginator bool NavMap
  | V1ProcessEventArgs FlagsWithParams CGREvent "ArgDispatcher option"
  | CGREventWithArgDispatcher CGREvent "ArgDispatcher option"

text \<open>
  Modelled from the spec: \<open>sessions.NewV1ProcessMessageArgs\<close> is not among the source
  files. The envelope of \<open>*message\<close> carries the full ancillary set; its \<open>Debit\<close> field,
  which processRequest reads back, is the accounts flag: the eighth argument of the call,
  \<open>Flags.HasKey(*accounts)\<close>.
\<close>

fun Debit :: "rpcArgs \<Rightarrow> bool" where
  "Debit (V1ProcessMessageArgs a ai t ti s si r acnts ro rie rec ev ad pg fd os) = acnts"
| "Debit _ = False"

text \<open>What a session call leaves in its reply value.\<close>

record SessReply =
  MaxUsage :: iface
  AsNavigableMap :: "string \<rightharpoonup> iface"

datatype logEntry = LogInfo string | LogWarning string | LogErr string

text \<open>
  The state one packet's processing works on: the agent request (whose sub-trees are
  shared by all processors of the packet), the reply packet, and the effects on the
  outside: the RPCs issued, in order, and the log lines.
\<close>

record pstate =
  agReq :: AgentRequest
  rpl :: Packet
  calls :: "(string \<times> rpcArgs) list"
  logs :: "logEntry list"

text \<open>
  The collaborators that are not part of the agent: the filter service, the field
  templater, the conversions of package \<open>config\<close>, the extraction of arguments, the RPC
  connection, the RADIUS authenticator and the reply encoder. The agent's code is
  verified for every behaviour of theirs. \<open>connMgr_Call\<close> may answer differently each
  time: it is given the number of calls issued before.
\<close>

record env =
  filterS_Pass :: "string \<Rightarrow> string list \<Rightarrow> AgentRequest \<Rightarrow> bool \<times> string option"
  SetFields :: "FCTemplate list \<Rightarrow> AgentRequest \<Rightarrow> string option \<times> AgentRequest"
  NMAsCGREvent :: "NavMap \<Rightarrow> string \<Rightarrow> CGREvent"
  NMAsMapInterface :: "NavMap \<Rightarrow> NavMap"
  ExtractArgsFromOpts :: "NavMap \<Rightarrow> bool \<Rightarrow> bool \<Rightarrow> (ExtractedArgs \<times> string option) \<times> NavMap"
  connMgr_Call :: "string \<Rightarrow> rpcArgs \<Rightarrow> nat \<Rightarrow> string option \<times> SessReply"
  radauthReq :: "FlagsWithParams \<Rightarrow> Packet \<Rightarrow> AgentRequest \<Rightarrow> Packet
                  \<Rightarrow> (bool \<times> string option) \<times> Packet"
  radReplyAppendAttributes :: "Packet \<Rightarrow> NavMap \<Rightarrow> string option \<times> Packet"
  processorTenant :: "RequestProcessor \<Rightarrow> string"

subsection \<open>Helpers of the agent request\<close>

text \<open>
  Modelled from the spec: \<open>utils.ErrHasPrefix\<close> is not among the source files. It holds of
  an error "whose message has the known prefix"; of no error it is false.
\<close>

definition ErrHasPrefix :: "string option \<Rightarrow> string \<Rightarrow> bool" where
  "ErrHasPrefix err prfx = (case err of None \<Rightarrow> False | Some e \<Rightarrow> take (length prfx) e = prfx)"

text \<open>
  Modelled from the spec: \<open>AgentRequest.setCGRReply\<close> is not among the source files.
  "Call failures populate \<open>*cgrep.Error\<close>", and otherwise the reply is decoded into
  \<open>*cgrep\<close>; recording the outcome is not described as failing, so the model reports no
  error of its own. (\<open>rply\<close> is \<open>None\<close> where the code passes \<open>nil\<close>.)
\<close>

definition setCGRReply ::
  "SessReply option \<Rightarrow> string option \<Rightarrow> AgentRequest \<Rightarrow> string option \<times> AgentRequest" where
  "setCGRReply rply errRply ar =
     (None,
      ar\<lparr>CGRReply :=
         (case errRply of
            Some e \<Rightarrow> [Error \<mapsto> IString e]
          | None \<Rightarrow>
              (case rply of None \<Rightarrow> Map.empty | Some r \<Rightarrow> AsNavigableMap r)
                (Error \<mapsto> IString []))\<rparr>)"

text \<open>
  Modelled from the spec: \<open>NewAgentRequest\<close> is not among the source files. It builds the
  request of one processor over the maps shared by all processors of the packet
  (\<open>*vars\<close>, \<open>*cgrep\<close>, \<open>*rep\<close>, \<open>*opts\<close>), with an empty \<open>*cgreq\<close> and the processor's tenant.
\<close>

definition NewAgentRequest :: "env \<Rightarrow> RequestProcessor \<Rightarrow> AgentRequest \<Rightarrow> AgentRequest" where
  "NewAgentRequest E p shared = shared\<lparr>agTenant := processorTenant E p, CGRRequest := []\<rparr>"

definition addLog :: "logEntry \<Rightarrow> pstate \<Rightarrow> pstate" where
  "addLog l st = st\<lparr>logs := logs st @ [l]\<rparr>"

definition setCGRReplyError :: "string \<Rightarrow> pstate \<Rightarrow> pstate" where
  "setCGRReplyError e st =
     st\<lparr>agReq := (agReq st)\<lparr>CGRReply := (CGRReply (agReq st))(Error \<mapsto> IString e)\<rparr>\<rparr>"

text \<open>\<open>ra.connMgr.Call\<close>: the call is issued (and recorded), its error and reply come back.\<close>

definition sessionCall ::
  "env \<Rightarrow> string \<Rightarrow> rpcArgs \<Rightarrow> pstate \<Rightarrow> (string option \<times> SessReply) \<times> pstate" where
  "sessionCall E m a st =
     (connMgr_Call E m a (length (calls st)), st\<lparr>calls := calls st @ [(m, a)]\<rparr>)"

subsection \<open>processRequest\<close>

text \<open>
  The request type is the first of the ten action flags, in this order, that the
  processor's flags hold; the empty string when they hold none (the Go variable keeps
  its zero value).
\<close>

definition reqTypes :: "string list" where
  "reqTypes = [MetaDryRun, MetaAuthorize, MetaInitiate, MetaUpdate, MetaTerminate,
               MetaMessage, MetaCDRs, MetaEvent, META_NONE, MetaRadauth]"

definition reqTypeOf :: "FlagsWithParams \<Rightarrow> string" where
  "reqTypeOf flags = (case find (HasKey flags) reqTypes of None \<Rightarrow> [] | Some typ \<Rightarrow> typ)"

text \<open>
  How a processor's run ends: processRequest returns \<open>(processed, err)\<close>, or it panics
  (a nil pointer is dereferenced).
\<close>

datatype outcome = Returned bool "string option" | Panicked

text \<open>
  How the \<open>switch reqType\<close> of processRequest is left: the function goes on after the
  switch (\<open>ActDone\<close>), returns from inside it, or panics.
\<close>

datatype actres = ActDone | ActReturn bool "string option" | ActPanic

definition setUsage :: "iface \<Rightarrow> CGREvent \<Rightarrow> CGREvent" where
  "setUsage v cgrEv = cgrEv\<lparr>Event := (Event cgrEv)(Usage \<mapsto> v)\<rparr>"

text \<open>
  The six cases that call the session service have one shape: the call is issued, the
  charging event is updated from its outcome (only \<open>*message\<close> and \<open>*event\<close> do that),
  and the outcome goes to setCGRReply, whose error makes processRequest return.
  \<open>rplyOf\<close> is what the case hands to setCGRReply: the reply, or \<open>nil\<close> for \<open>*terminate\<close>.
\<close>

definition callSession ::
  "env \<Rightarrow> string \<Rightarrow> rpcArgs \<Rightarrow> (SessReply \<Rightarrow> SessReply option)
     \<Rightarrow> (string option \<Rightarrow> SessReply \<Rightarrow> CGREvent \<Rightarrow> CGREvent) \<Rightarrow> CGREvent \<Rightarrow> pstate
     \<Rightarrow> actres \<times> CGREvent \<times> pstate" where
  "callSession E method args rplyOf update cgrEv st =
     (case sessionCall E method args st of
        ((err, rply), st1) \<Rightarrow>
          (case setCGRReply (rplyOf rply) err (agReq st1) of
             (Some e, ar) \<Rightarrow> (ActReturn False (Some e), update err rply cgrEv, st1\<lparr>agReq := ar\<rparr>)
           | (None, ar) \<Rightarrow> (ActDone, update err rply cgrEv, st1\<lparr>agReq := ar\<rparr>)))"

definition authArgs ::
  "FlagsWithParams \<Rightarrow> CGREvent \<Rightarrow> ExtractedArgs \<Rightarrow> Paginator \<Rightarrow> NavMap \<Rightarrow> rpcArgs" where
  "authArgs fl cgrEv cgrArgs pg opts =
     V1AuthorizeArgs
       (HasKey fl MetaAttributes) (ParamsSlice fl MetaAttributes)
       (HasKey fl MetaThresholds) (ParamsSlice fl MetaThresholds)
       (HasKey fl MetaStats) (ParamsSlice fl MetaStats)
       (HasKey fl MetaResources) (HasKey fl MetaAccounts)
       (HasKey fl MetaRoutes) (HasKey fl MetaRoutesIgnoreErrors)
       (HasKey fl MetaRoutesEventCost)
       cgrEv (ArgDispatcher cgrArgs) pg (HasKey fl MetaFD) opts"

definition initArgs :: "FlagsWithParams \<Rightarrow> CGREvent \<Rightarrow> ExtractedArgs \<Rightarrow> NavMap \<Rightarrow> rpcArgs" where
  "initArgs fl cgrEv cgrArgs opts =
     V1InitSessionArgs
       (HasKey fl MetaAttributes) (ParamsSlice fl MetaAttributes)
       (HasKey fl MetaThresholds) (ParamsSlice fl MetaThresholds)
       (HasKey fl MetaStats) (ParamsSlice fl MetaStats)
       (HasKey fl MetaResources) (HasKey fl MetaAccounts)
       cgrEv (ArgDispatcher cgrArgs) (HasKey fl MetaFD) opts"

definition updateArgs :: "FlagsWithParams \<Rightarrow> CGREvent \<Rightarrow> ExtractedArgs \<Rightarrow> NavMap \<Rightarrow> rpcArgs" where
  "updateArgs fl cgrEv cgrArgs opts =
     V1UpdateSessionArgs
       (HasKey fl MetaAttributes) (ParamsSlice fl MetaAttributes)
       (HasKey fl MetaAccounts)
       cgrEv (ArgDispatcher cgrArgs) (HasKey fl MetaFD) opts"

definition terminateArgs ::
  "FlagsWithParams \<Rightarrow> CGREvent \<Rightarrow> ExtractedArgs \<Rightarrow> NavMap \<Rightarrow> rpcArgs" where
  "terminateArgs fl cgrEv cgrArgs opts =
     V1TerminateSessionArgs
       (HasKey fl MetaAccounts) (HasKey fl MetaResources)
       (HasKey fl MetaThresholds) (ParamsSlice fl MetaThresholds)
       (HasKey fl MetaStats) (ParamsSlice fl MetaStats)
       cgrEv (ArgDispatcher cgrArgs) (HasKey fl MetaFD) opts"

definition messageArgs ::
  "FlagsWithParams \<Rightarrow> CGREvent \<Rightarrow> ExtractedArgs \<Rightarrow> Paginator \<Rightarrow> NavMap \<Rightarrow> rpcArgs" where
  "messageArgs fl cgrEv cgrArgs pg opts =
     V1ProcessMessageArgs
       (HasKey fl MetaAttributes) (ParamsSlice fl MetaAttributes)
       (HasKey fl MetaThresholds) (ParamsSlice fl MetaThresholds)
       (HasKey fl MetaStats) (ParamsSlice fl MetaStats)
       (HasKey fl MetaResources) (HasKey fl MetaAccounts)
       (HasKey fl MetaRoutes) (HasKey fl MetaRoutesIgnoreErrors)
       (HasKey fl MetaRoutesEventCost)
       cgrEv (ArgDispatcher cgrArgs) pg (HasKey fl MetaFD) opts"

definition eventArgs :: "FlagsWithParams \<Rightarrow> CGREvent \<Rightarrow> ExtractedArgs \<Rightarrow> rpcArgs" where
  "eventArgs fl cgrEv cgrArgs = V1ProcessEventArgs fl cgrEv (ArgDispatcher cgrArgs)"

text \<open>The updates of \<open>cgrEv.Event[Usage]\<close> in the \<open>*message\<close> and the \<open>*event\<close> case.\<close>

definition messageUsage ::
  "rpcArgs \<Rightarrow> string option \<Rightarrow> SessReply \<Rightarrow> CGREvent \<Rightarrow> CGREvent" where
  "messageUsage evArgs err rply cgrEv =
     (if ErrHasPrefix err RalsErrorPrfx then setUsage (IInt 0) cgrEv
      else if Debit evArgs then setUsage (MaxUsage rply) cgrEv
      else cgrEv)"

definition eventUsage ::
  "FlagsWithParams \<Rightarrow> string option \<Rightarrow> SessReply \<Rightarrow> CGREvent \<Rightarrow> CGREvent" where
  "eventUsage fl err rply cgrEv =
     (let needMaxUsage = (HasKey fl MetaAuth \<or> HasKey fl MetaInit \<or> HasKey fl MetaUpdate) in
      if ErrHasPrefix err RalsErrorPrfx then setUsage (IInt 0) cgrEv
      else if needMaxUsage then setUsage (MaxUsage rply) cgrEv
      else cgrEv)"

text \<open>The \<open>*radauth\<close> case: a failed or refused authentication is written to \<open>*cgrep.Error\<close>.\<close>

definition radauthCase ::
  "env \<Rightarrow> FlagsWithParams \<Rightarrow> Packet \<Rightarrow> CGREvent \<Rightarrow> pstate \<Rightarrow> actres \<times> CGREvent \<times> pstate" where
  "radauthCase E fl req cgrEv st =
     (case radauthReq E fl req (agReq st) (rpl st) of
        ((pass, Some e), rpl1) \<Rightarrow> (ActDone, cgrEv, setCGRReplyError e (st\<lparr>rpl := rpl1\<rparr>))
      | ((pass, None), rpl1) \<Rightarrow>
          (ActDone, cgrEv,
           if \<not> pass then setCGRReplyError RadauthFailed (st\<lparr>rpl := rpl1\<rparr>)
           else st\<lparr>rpl := rpl1\<rparr>))"

text \<open>
  The \<open>switch reqType\<close> of processRequest compares the request type with the case
  labels from top to bottom; \<open>switchCase\<close> is the case it selects, \<open>CaseDefault\<close> when no
  label is equal.
\<close>

datatype switchLabel =
    CaseNone | CaseDryRun | CaseAuthorize | CaseInitiate | CaseUpdate | CaseTerminate
  | CaseMessage | CaseEvent | CaseCDRs | CaseRadauth | CaseDefault

definition switchCase :: "string \<Rightarrow> switchLabel" where
  "switchCase reqType =
     (if reqType = META_NONE then CaseNone
      else if reqType = MetaDryRun then CaseDryRun
      else if reqType = MetaAuthorize then CaseAuthorize
      else if reqType = MetaInitiate then CaseInitiate
      else if reqType = MetaUpdate then CaseUpdate
      else if reqType = MetaTerminate then CaseTerminate
      else if reqType = MetaMessage then CaseMessage
      else if reqType = MetaEvent then CaseEvent
      else if reqType = MetaCDRs then CaseCDRs
      else if reqType = MetaRadauth then CaseRadauth
      else CaseDefault)"

text \<open>
  The bodies of the cases. The result says whether the function goes on after the
  switch (\<open>ActDone\<close>), returns from inside it or panics (\<open>*cgrArgs.RoutePaginator\<close> with a
  nil pointer); it carries the charging event.
\<close>

definition processAction ::
  "env \<Rightarrow> Packet \<Rightarrow> RequestProcessor \<Rightarrow> string \<Rightarrow> CGREvent \<Rightarrow> ExtractedArgs \<Rightarrow> NavMap
     \<Rightarrow> pstate \<Rightarrow> actres \<times> CGREvent \<times> pstate" where
  "processAction E req p reqType cgrEv cgrArgs opts st =
    (let fl = Flags p in
     case switchCase reqType of
       CaseDefault \<Rightarrow>
         (ActReturn False (Some (''unknown request type: <'' @ reqType @ ''>'')), cgrEv, st)
     | CaseNone \<Rightarrow> (ActDone, cgrEv, st)
     | CaseDryRun \<Rightarrow> (ActDone, cgrEv, addLog (LogInfo ''DRY_RUN, CGREvent'') st)
     | CaseAuthorize \<Rightarrow>
         (case RoutePaginator cgrArgs of
            None \<Rightarrow> (ActPanic, cgrEv, st)
          | Some pg \<Rightarrow>
              callSession E SessionSv1AuthorizeEvent (authArgs fl cgrEv cgrArgs pg opts)
                Some (\<lambda>err rply ev. ev) cgrEv st)
     | CaseInitiate \<Rightarrow>
         callSession E SessionSv1InitiateSession (initArgs fl cgrEv cgrArgs opts)
           Some (\<lambda>err rply ev. ev) cgrEv st
     | CaseUpdate \<Rightarrow>
         callSession E SessionSv1UpdateSession (updateArgs fl cgrEv cgrArgs opts)
           Some (\<lambda>err rply ev. ev) cgrEv st
     | CaseTerminate \<Rightarrow>
         callSession E SessionSv1TerminateSession (terminateArgs fl cgrEv cgrArgs opts)
           (\<lambda>rply. None) (\<lambda>err rply ev. ev) cgrEv st
     | CaseMessage \<Rightarrow>
         (case RoutePaginator cgrArgs of
            None \<Rightarrow> (ActPanic, cgrEv, st)
          | Some pg \<Rightarrow>
              callSession E SessionSv1ProcessMessage (messageArgs fl cgrEv cgrArgs pg opts)
                Some (messageUsage (messageArgs fl cgrEv cgrArgs pg opts)) cgrEv st)
     | CaseEvent \<Rightarrow>
         callSession E SessionSv1ProcessEvent (eventArgs fl cgrEv cgrArgs)
           Some (eventUsage fl) cgrEv st
     | CaseCDRs \<Rightarrow> (ActDone, cgrEv, st)
     | CaseRadauth \<Rightarrow> radauthCase E fl req cgrEv st)"

text \<open>
  The rest of processRequest, after the switch: the separate ProcessCDR request, the
  reply fields, the logging, and the return of \<open>(true, nil)\<close>.
\<close>

definition finishRequest ::
  "env \<Rightarrow> RequestProcessor \<Rightarrow> string \<Rightarrow> CGREvent \<Rightarrow> ExtractedArgs \<Rightarrow> pstate
     \<Rightarrow> outcome \<times> pstate" where
  "finishRequest E p reqType cgrEv cgrArgs st =
    (let st1 =
           (if HasKey (Flags p) MetaCDRs then
              (case sessionCall E SessionSv1ProcessCDR
                      (CGREventWithArgDispatcher cgrEv (ArgDispatcher cgrArgs)) st of
                 ((Some e, rplyCDRs), s) \<Rightarrow> setCGRReplyError e s
               | ((None, rplyCDRs), s) \<Rightarrow> s)
            else st)
     in case SetFields E (ReplyFields p) (agReq st1) of
          (Some e, ar) \<Rightarrow> (Returned False (Some e), st1\<lparr>agReq := ar\<rparr>)
        | (None, ar) \<Rightarrow>
            (let st2 = st1\<lparr>agReq := ar\<rparr>;
                 st3 = (if HasKey (Flags p) MetaLog
                        then addLog (LogInfo ''LOG, Radius reply'') st2 else st2);
                 st4 = (if reqType = MetaDryRun
                        then addLog (LogInfo ''DRY_RUN, Radius reply'') st3 else st3)
             in (Returned True None, st4)))"

text \<open>
  What processRequest computes between the request fields and the switch: the charging
  event, the options, the request type and the extracted arguments. A failed extraction
  is logged and its error dropped.
\<close>

definition prepareAction ::
  "env \<Rightarrow> RequestProcessor \<Rightarrow> pstate
     \<Rightarrow> string \<times> CGREvent \<times> ExtractedArgs \<times> NavMap \<times> pstate" where
  "prepareAction E p st1 =
    (let ar = agReq st1;
         cgrEv = NMAsCGREvent E (CGRRequest ar) (agTenant ar);
         opts0 = NMAsMapInterface E (Opts ar);
         reqType = reqTypeOf (Flags p)
     in case ExtractArgsFromOpts E opts0 (HasKey (Flags p) MetaDispatchers)
               (reqType = MetaAuthorize \<or> reqType = MetaMessage \<or> reqType = MetaEvent) of
          ((cgrArgs, xerr), opts) \<Rightarrow>
            (let st2 = (if xerr \<noteq> None
                        then addLog (LogWarning ''args extraction failed'') st1 else st1);
                 st3 = (if HasKey (Flags p) MetaLog
                        then addLog (LogInfo ''LOG, radius message'') st2 else st2)
             in (reqType, cgrEv, cgrArgs, opts, st3)))"

text \<open>processRequest represents one processor processing the request.\<close>

definition processRequest ::
  "env \<Rightarrow> Packet \<Rightarrow> RequestProcessor \<Rightarrow> pstate \<Rightarrow> outcome \<times> pstate" where
  "processRequest E req p st =
    (case filterS_Pass E (agTenant (agReq st)) (Filters p) (agReq st) of
       (pass, ferr) \<Rightarrow>
         if ferr \<noteq> None \<or> \<not> pass then (Returned pass ferr, st)
         else
           (case SetFields E (RequestFields p) (agReq st) of
              (Some e, ar) \<Rightarrow> (Returned False (Some e), st\<lparr>agReq := ar\<rparr>)
            | (None, ar) \<Rightarrow>
                (case prepareAction E p (st\<lparr>agReq := ar\<rparr>) of
                   (reqType, cgrEv, cgrArgs, opts, st3) \<Rightarrow>
                     (case processAction E req p reqType cgrEv cgrArgs opts st3 of
                        (ActPanic, cgrEv1, st4) \<Rightarrow> (Panicked, st4)
                      | (ActReturn b e, cgrEv1, st4) \<Rightarrow> (Returned b e, st4)
                      | (ActDone, cgrEv1, st4) \<Rightarrow>
                          finishRequest E p reqType cgrEv1 cgrArgs st4))))"

subsection \<open>The handlers\<close>

text \<open>
  The loop over the request processors is the same in handleAuth and handleAcct but for
  one statement: handleAuth sets \<open>*vars.*radReqType\<close> on the new agent request before it
  calls processRequest; handleAcct has no such statement. \<open>seed\<close> is that statement.
  Besides the loop's \<open>processed\<close> and \<open>err\<close>, the model returns the processors whose
  filters passed, in order.
\<close>

definition seedRadAuth :: "AgentRequest \<Rightarrow> AgentRequest" where
  "seedRadAuth ar = ar\<lparr>Vars := (Vars ar)(MetaRadReqType \<mapsto> IString MetaRadAuth)\<rparr>"

definition matches :: "env \<Rightarrow> RequestProcessor \<Rightarrow> pstate \<Rightarrow> bool" where
  "matches E p st =
     (filterS_Pass E (agTenant (agReq st)) (Filters p) (agReq st) = (True, None))"

text \<open>The agent request a processor is run on: the first statements of the loop body.\<close>

definition iterationState ::
  "env \<Rightarrow> (AgentRequest \<Rightarrow> AgentRequest) \<Rightarrow> RequestProcessor \<Rightarrow> pstate \<Rightarrow> pstate" where
  "iterationState E seed reqProcessor st =
     st\<lparr>agReq := seed (NewAgentRequest E reqProcessor (agReq st))\<rparr>"

fun processorsLoop ::
  "env \<Rightarrow> (AgentRequest \<Rightarrow> AgentRequest) \<Rightarrow> Packet \<Rightarrow> RequestProcessor list \<Rightarrow> bool \<Rightarrow> pstate
     \<Rightarrow> RequestProcessor list \<times> outcome \<times> pstate" where
  "processorsLoop E seed req [] processed st = ([], Returned processed None, st)"
| "processorsLoop E seed req (reqProcessor # ps) processed st =
    (let st0 = iterationState E seed reqProcessor st;
         ran = (if matches E reqProcessor st0 then [reqProcessor] else [])
     in case processRequest E req reqProcessor st0 of
          (Panicked, st1) \<Rightarrow> (ran, Panicked, st1)
        | (Returned lclProcessed err, st1) \<Rightarrow>
            (let processed1 = (if lclProcessed then lclProcessed else processed) in
             if err \<noteq> None \<or> (lclProcessed \<and> \<not> GetBool (Flags reqProcessor) MetaContinue)
             then (ran, Returned processed1 err, st1)
             else (case processorsLoop E seed req ps processed1 st1 of
                     (ran1, res) \<Rightarrow> (ran @ ran1, res))))"

text \<open>What a handler gives back to the RADIUS server: \<open>(rpl, err)\<close>, or a panic.\<close>

datatype handled = Handled "Packet option" "string option" | HandlerPanicked

definition newState :: "Packet \<Rightarrow> PacketCode \<Rightarrow> pstate" where
  "newState req code =
     \<lparr>agReq = \<lparr>agTenant = [], Vars = [RemoteHost \<mapsto> IString (RemoteAddr req)],
               CGRRequest = [], CGRReply = Map.empty, Reply = [], Opts = []\<rparr>,
      rpl = \<lparr>RemoteAddr = RemoteAddr req, Code = code, AVPs = []\<rparr>,
      calls = [], logs = []\<rparr>"

definition afterLoop :: "env \<Rightarrow> outcome \<times> pstate \<Rightarrow> handled \<times> pstate" where
  "afterLoop E r =
     (case r of
        (Panicked, st) \<Rightarrow> (HandlerPanicked, st)
      | (Returned processed (Some e), st) \<Rightarrow>
          (Handled None None, addLog (LogErr ''error, ignoring request'') st)
      | (Returned processed None, st) \<Rightarrow>
          if \<not> processed
          then (Handled None None, addLog (LogErr ''no request processor enabled'') st)
          else (case radReplyAppendAttributes E (rpl st) (Reply (agReq st)) of
                  (Some e, rpl1) \<Rightarrow>
                    (Handled None (Some e), addLog (LogErr ''err replying to message'') st)
                | (None, rpl1) \<Rightarrow> (Handled (Some rpl1) None, st\<lparr>rpl := rpl1\<rparr>)))"

text \<open>handleAuth handles RADIUS Authorization request.\<close>

definition handleAuth :: "env \<Rightarrow> RequestProcessor list \<Rightarrow> Packet \<Rightarrow> handled \<times> pstate" where
  "handleAuth E RequestProcessors req =
     afterLoop E (snd (processorsLoop E seedRadAuth req RequestProcessors False
                         (newState req AccessAccept)))"

text \<open>handleAcct handles RADIUS Accounting request.\<close>

definition handleAcct :: "env \<Rightarrow> RequestProcessor list \<Rightarrow> Packet \<Rightarrow> handled \<times> pstate" where
  "handleAcct E RequestProcessors req =
     afterLoop E (snd (processorsLoop E (\<lambda>ar. ar) req RequestProcessors False
                         (newState req AccountingResponse)))"

section \<open>The loader (loaders/loader.go)\<close>

subsection \<open>Data\<close>


text \<open>\<open>LoaderData\<close> is one logical row: a Go map from field name to decoded value.\<close>

type_synonym LoaderData = "(string \<times> string) list"

text \<open>
  What \<open>csv.Reader.Read\<close> returns for the next line of a file: a record, or an error
  that is not \<open>io.EOF\<close> (the reader then goes on with the line after). A file is the
  list of these; at its end every read returns \<open>io.EOF\<close>.
\<close>

datatype csvRead = Record "string list" | ReadError string

record openedCSVFile =
  fileName :: string
  csvRdr :: "csvRead list"

text \<open>
  The collaborators of the loader: the decoding of a record into the row
  (\<open>LoaderData.UpdateFromCSV\<close>), the row's key (\<open>LoaderData.TenantID\<close>, the spec's
  \<open>tenant:ID\<close>), the data manager and cache behind storeLoadedData and removeLoadedData,
  and the failures of the file system. The data manager may answer differently each time:
  it is given the number of invocations before.
\<close>

record lenv =
  UpdateFromCSV :: "string \<Rightarrow> string list \<Rightarrow> LoaderData \<Rightarrow> string option \<times> LoaderData"
  TenantID :: "LoaderData \<Rightarrow> string"
  storeErr :: "string \<Rightarrow> string \<times> LoaderData list \<Rightarrow> string \<Rightarrow> nat \<Rightarrow> string option"
  removeErr :: "string \<Rightarrow> string \<times> LoaderData list \<Rightarrow> string \<Rightarrow> nat \<Rightarrow> string option"
  openErr :: "string \<Rightarrow> string option"
  renameErr :: "string \<Rightarrow> string option"
  lockErr :: "string option"

text \<open>
  The loader and the world it works on. Go maps are association lists with distinct
  keys; a \<open>range\<close> over a map visits the entries in list order (Go leaves the order open;
  the theorems hold for every list, so for every order). \<open>rdrs\<close> maps a loader type to
  its files, a file that is not open to \<open>None\<close> (Go's \<open>nil\<close>). \<open>tpInDir\<close> and \<open>tpOutDir\<close>
  are the two directories: file names with contents. \<open>stored\<close> and \<open>removed\<close> record the
  invocations of storeLoadedData and removeLoadedData: loader type, tenant key with its
  rows, and the error returned.
\<close>

record Loader =
  lockFilename :: string
  rdrs :: "(string \<times> (string \<times> openedCSVFile option) list) list"
  bufLoaderData :: "(string \<times> LoaderData list) list"
  tpInDir :: "(string \<times> csvRead list) list"
  tpOutDir :: "(string \<times> csvRead list) list"
  stored :: "(string \<times> (string \<times> LoaderData list) \<times> string option) list"
  removed :: "(string \<times> (string \<times> LoaderData list) \<times> string option) list"
  ldrLogs :: "logEntry list"

text \<open>
  How a function of the loader ends: it returns its \<open>err\<close>, it panics (a nil reader is
  dereferenced), or it never returns (the row loop over no reader at all).
\<close>

datatype lres = LReturned "string option" | LPanicked | LDiverges

subsection \<open>Go maps as association lists\<close>

fun mapSet :: "'k \<Rightarrow> 'v \<Rightarrow> ('k \<times> 'v) list \<Rightarrow> ('k \<times> 'v) list" where
  "mapSet k v [] = [(k, v)]"
| "mapSet k v ((k', v') # m) = (if k' = k then (k, v) # m else (k', v') # mapSet k v m)"

definition mapDelete :: "'k \<Rightarrow> ('k \<times> 'v) list \<Rightarrow> ('k \<times> 'v) list" where
  "mapDelete k m = filter (\<lambda>kv. fst kv \<noteq> k) m"

definition readersOf :: "Loader \<Rightarrow> string \<Rightarrow> (string \<times> openedCSVFile option) list" where
  "readersOf ldr loaderType = (case map_of (rdrs ldr) loaderType of None \<Rightarrow> [] | Some rs \<Rightarrow> rs)"

text \<open>
  The readers of a loader type, put back after reads moved them on or after a file was
  opened or closed: \<open>ldr.rdrs[loaderType]\<close> is updated in place, for a type that is a
  key of \<open>ldr.rdrs\<close>.
\<close>

definition setReaders ::
  "string \<Rightarrow> (string \<times> openedCSVFile option) list \<Rightarrow> Loader \<Rightarrow> Loader" where
  "setReaders loaderType rs ldr =
     ldr\<lparr>rdrs := map (\<lambda>kv. if fst kv = loaderType then (loaderType, rs) else kv) (rdrs ldr)\<rparr>"

definition ldrLog :: "logEntry list \<Rightarrow> Loader \<Rightarrow> Loader" where
  "ldrLog ls ldr = ldr\<lparr>ldrLogs := ldrLogs ldr @ ls\<rparr>"

subsection \<open>Locking and moving\<close>


text \<open>unlockFolder removes the lock file; its error is dropped by the caller.\<close>

definition unlockFolder :: "Loader \<Rightarrow> Loader" where
  "unlockFolder ldr = ldr\<lparr>tpInDir := mapDelete (lockFilename ldr) (tpInDir ldr)\<rparr>"



subsection \<open>Storing and removing\<close>

text \<open>
  storeLoadedData turns the rows of one tenant key into profiles, writes them through
  the data manager and reloads the cache; removeLoadedData removes the profile of the
  key. Both consist of calls to the data manager, to the conversions of package
  \<open>engine\<close> and to the cache connection. The model records the invocation and takes
  its error from the collaborators; neither function touches the loader's readers,
  buffer or directories.
\<close>

datatype loadOp = OpStore | OpRemove

definition storeLoadedData ::
  "lenv \<Rightarrow> string \<Rightarrow> string \<times> LoaderData list \<Rightarrow> string \<Rightarrow> Loader \<Rightarrow> string option \<times> Loader" where
  "storeLoadedData L loaderType lds caching ldr =
     (let err = storeErr L loaderType lds caching (length (stored ldr))
      in (err, ldr\<lparr>stored := stored ldr @ [(loaderType, lds, err)]\<rparr>))"

definition removeLoadedData ::
  "lenv \<Rightarrow> string \<Rightarrow> string \<times> LoaderData list \<Rightarrow> string \<Rightarrow> Loader \<Rightarrow> string option \<times> Loader" where
  "removeLoadedData L loaderType lds caching ldr =
     (let err = removeErr L loaderType lds caching (length (removed ldr))
      in (err, ldr\<lparr>removed := removed ldr @ [(loaderType, lds, err)]\<rparr>))"

definition flushData ::
  "loadOp \<Rightarrow> lenv \<Rightarrow> string \<Rightarrow> string \<times> LoaderData list \<Rightarrow> string \<Rightarrow> Loader
     \<Rightarrow> string option \<times> Loader" where
  "flushData op L loaderType lds caching ldr =
     (case op of
        OpStore \<Rightarrow> storeLoadedData L loaderType lds caching ldr
      | OpRemove \<Rightarrow> removeLoadedData L loaderType lds caching ldr)"

subsection \<open>processContent and removeContent\<close>

text \<open>
  The inner loop of a row: one read from each reader, in turn. \<open>RowEOF\<close>: a reader was at
  its end (\<open>keepLooping = false; break\<close>, the readers after it are not read).
  \<open>RowPanic\<close>: a reader was nil. The result carries the readers as the reads left them,
  the row \<open>lData\<close> and the warnings logged.
\<close>

datatype rowEnd = RowRead | RowEOF | RowPanic

fun readRow ::
  "lenv \<Rightarrow> (string \<times> openedCSVFile option) list \<Rightarrow> bool \<Rightarrow> LoaderData
     \<Rightarrow> rowEnd \<times> (string \<times> openedCSVFile option) list \<times> LoaderData \<times> logEntry list" where
  "readRow L [] hasErrors lData = (RowRead, [], lData, [])"
| "readRow L ((fName, None) # rs) hasErrors lData = (RowPanic, (fName, None) # rs, lData, [])"
| "readRow L ((fName, Some rdr) # rs) hasErrors lData =
     (case csvRdr rdr of
        [] \<Rightarrow> (RowEOF, (fName, Some rdr) # rs, lData, [])
      | ReadError e # rest \<Rightarrow>
          (case readRow L rs True lData of
             (r, rs1, lData1, lg) \<Rightarrow>
               (r, (fName, Some (rdr\<lparr>csvRdr := rest\<rparr>)) # rs1, lData1,
                LogWarning ''reading line'' # lg))
      | Record record # rest \<Rightarrow>
          (if hasErrors then
             (case readRow L rs True lData of
                (r, rs1, lData1, lg) \<Rightarrow>
                  (r, (fName, Some (rdr\<lparr>csvRdr := rest\<rparr>)) # rs1, lData1, lg))
           else
             (case UpdateFromCSV L fName record lData of
                (Some e, lData0) \<Rightarrow>
                  (case readRow L rs True lData0 of
                     (r, rs1, lData1, lg) \<Rightarrow>
                       (r, (fName, Some (rdr\<lparr>csvRdr := rest\<rparr>)) # rs1, lData1,
                        LogWarning ''line'' # lg))
              | (None, lData0) \<Rightarrow>
                  (case readRow L rs False lData0 of
                     (r, rs1, lData1, lg) \<Rightarrow>
                       (r, (fName, Some (rdr\<lparr>csvRdr := rest\<rparr>)) # rs1, lData1, lg)))))"

text \<open>
  The buffer rule, the statements after the inner loop: when the row's key is not
  buffered and the buffer holds one key, that key's rows are flushed and deleted first;
  then the row is appended under its key.
\<close>

definition appendRow ::
  "string \<Rightarrow> LoaderData \<Rightarrow> (string \<times> LoaderData list) list \<Rightarrow> (string \<times> LoaderData list) list" where
  "appendRow tntID lData buf =
     mapSet tntID ((case map_of buf tntID of None \<Rightarrow> [] | Some rows \<Rightarrow> rows) @ [lData]) buf"

definition bufferRow ::
  "loadOp \<Rightarrow> lenv \<Rightarrow> string \<Rightarrow> string \<Rightarrow> LoaderData \<Rightarrow> Loader \<Rightarrow> string option \<times> Loader" where
  "bufferRow op L loaderType caching lData ldr =
     (let tntID = TenantID L lData in
      if map_of (bufLoaderData ldr) tntID = None \<and> length (bufLoaderData ldr) = 1 then
        (case hd (bufLoaderData ldr) of
           (prevTntID, prevRows) \<Rightarrow>
             (case flushData op L loaderType (prevTntID, prevRows) caching ldr of
                (Some e, ldr1) \<Rightarrow> (Some e, ldr1)
              | (None, ldr1) \<Rightarrow>
                  (None,
                   ldr1\<lparr>bufLoaderData :=
                          appendRow tntID lData (mapDelete prevTntID (bufLoaderData ldr1))\<rparr>)))
      else (None, ldr\<lparr>bufLoaderData := appendRow tntID lData (bufLoaderData ldr)\<rparr>))"

text \<open>One iteration of \<open>for keepLooping\<close>: the row is read, then buffered unless empty.\<close>

datatype rowStepEnd = StepNext | StepLast | StepReturn string | StepPanic

definition rowStep ::
  "loadOp \<Rightarrow> lenv \<Rightarrow> string \<Rightarrow> string \<Rightarrow> Loader \<Rightarrow> rowStepEnd \<times> Loader" where
  "rowStep op L loaderType caching ldr =
     (case readRow L (readersOf ldr loaderType) False [] of
        (r, rs1, lData, lg) \<Rightarrow>
          (let ldr1 = ldrLog lg (setReaders loaderType rs1 ldr) in
           if r = RowPanic then (StepPanic, ldr1)
           else if lData = [] then (if r = RowEOF then StepLast else StepNext, ldr1)
           else (case bufferRow op L loaderType caching lData ldr1 of
                   (Some e, ldr2) \<Rightarrow> (StepReturn e, ldr2)
                 | (None, ldr2) \<Rightarrow> (if r = RowEOF then StepLast else StepNext, ldr2))))"

text \<open>
  The loop \<open>for keepLooping\<close>. Over no reader at all the inner loop does nothing, the row
  is empty and \<open>keepLooping\<close> stays true: the loop never ends. Otherwise every row that
  does not end the loop takes a line from every reader, which bounds the iterations.
  \<open>LReturned None\<close> is the loop left with \<open>keepLooping = false\<close>; \<open>LReturned (Some e)\<close>
  is the \<open>return\<close> from inside the loop, with the error of the flush.
\<close>

definition pending :: "(string \<times> openedCSVFile option) list \<Rightarrow> nat" where
  "pending rs = sum_list (map (\<lambda>fr. case snd fr of None \<Rightarrow> 0 | Some rdr \<Rightarrow> length (csvRdr rdr)) rs)"

lemma readRow_RowRead_pending:
  "readRow L rs hasErrors lData = (RowRead, rs1, lData1, lg)
     \<Longrightarrow> pending rs1 + length rs = pending rs \<and> map fst rs1 = map fst rs"
  by (induction L rs hasErrors lData arbitrary: rs1 lData1 lg rule: readRow.induct)
     (auto simp: pending_def split: list.splits csvRead.splits if_splits prod.splits option.splits)

lemma readersOf_setReaders:
  "map_of (rdrs ldr) loaderType \<noteq> None \<Longrightarrow> readersOf (setReaders loaderType rs ldr) loaderType = rs"
proof -
  have "map_of m k \<noteq> None \<Longrightarrow>
        map_of (map (\<lambda>kv. if fst kv = k then (k, v) else kv) m) k = Some v"
    for m :: "(string \<times> (string \<times> openedCSVFile option) list) list" and k v
    by (induction m) auto
  then show "map_of (rdrs ldr) loaderType \<noteq> None
      \<Longrightarrow> readersOf (setReaders loaderType rs ldr) loaderType = rs"
    by (simp add: readersOf_def setReaders_def)
qed

lemma rdrs_flushData: "flushData op L loaderType lds caching ldr = (err, ldr1) \<Longrightarrow> rdrs ldr1 = rdrs ldr"
  by (auto simp: flushData_def storeLoadedData_def removeLoadedData_def Let_def
           split: loadOp.splits)

lemma rdrs_bufferRow: "bufferRow op L loaderType caching lData ldr = (err, ldr1) \<Longrightarrow> rdrs ldr1 = rdrs ldr"
  by (auto simp: bufferRow_def Let_def split: if_splits prod.splits option.splits
           dest: rdrs_flushData)

lemma rowStep_StepNext_pending:
  assumes "rowStep op L loaderType caching ldr = (StepNext, ldr1)"
    and "readersOf ldr loaderType \<noteq> []"
  shows "pending (readersOf ldr1 loaderType) < pending (readersOf ldr loaderType)"
proof -
  obtain r rs1 lData lg where
    rr: "readRow L (readersOf ldr loaderType) False [] = (r, rs1, lData, lg)"
    by (cases "readRow L (readersOf ldr loaderType) False []") auto
  have key: "map_of (rdrs ldr) loaderType \<noteq> None"
    using assms(2) by (auto simp: readersOf_def split: option.splits)
  have rd: "readersOf ldr1 loaderType = rs1" and r: "r = RowRead"
    using assms(1) rr readersOf_setReaders[OF key, of rs1]
    by (auto simp: rowStep_def Let_def readersOf_def ldrLog_def
             split: if_splits prod.splits option.splits dest!: rdrs_bufferRow
             intro: rowEnd.exhaust)
  from readRow_RowRead_pending[OF rr[unfolded r]] assms(2) rd show ?thesis
    by (cases "readersOf ldr loaderType") auto
qed

function rowLoop :: "loadOp \<Rightarrow> lenv \<Rightarrow> string \<Rightarrow> string \<Rightarrow> Loader \<Rightarrow> lres \<times> Loader" where
  "rowLoop op L loaderType caching ldr =
     (if readersOf ldr loaderType = [] then (LDiverges, ldr)
      else (case rowStep op L loaderType caching ldr of
              (StepNext, ldr1) \<Rightarrow> rowLoop op L loaderType caching ldr1
            | (StepLast, ldr1) \<Rightarrow> (LReturned None, ldr1)
            | (StepReturn e, ldr1) \<Rightarrow> (LReturned (Some e), ldr1)
            | (StepPanic, ldr1) \<Rightarrow> (LPanicked, ldr1)))"
  by pat_completeness auto
termination
proof (relation "measure (\<lambda>(op, L, loaderType, caching, ldr). pending (readersOf ldr loaderType))")
  show "wf (measure (\<lambda>(op, L, loaderType, caching, ldr). pending (readersOf ldr loaderType)))"
    by simp
next
  fix op :: loadOp and L :: lenv and loaderType caching :: string and ldr x1 x2
  assume "readersOf ldr loaderType \<noteq> []"
    and "(x1, x2) = rowStep op L loaderType caching ldr" and "x1 = StepNext"
  then show "((op, L, loaderType, caching, x2), (op, L, loaderType, caching, ldr))
      \<in> measure (\<lambda>(op, L, loaderType, caching, ldr). pending (readersOf ldr loaderType))"
    using rowStep_StepNext_pending[of op L loaderType caching ldr x2] by simp
qed

text \<open>
  After the loop, the last element of the buffer is flushed: the first key a \<open>range\<close>
  over the buffer gives (the empty string when the buffer is empty), with its rows; on
  success the key is deleted.
\<close>

definition lastFlush :: "loadOp \<Rightarrow> lenv \<Rightarrow> string \<Rightarrow> string \<Rightarrow> Loader \<Rightarrow> lres \<times> Loader" where
  "lastFlush op L loaderType caching ldr =
     (let tntID = (case bufLoaderData ldr of [] \<Rightarrow> [] | kv # rest \<Rightarrow> fst kv);
          rows = (case map_of (bufLoaderData ldr) tntID of None \<Rightarrow> [] | Some rs \<Rightarrow> rs)
      in case flushData op L loaderType (tntID, rows) caching ldr of
           (Some e, ldr1) \<Rightarrow> (LReturned (Some e), ldr1)
         | (None, ldr1) \<Rightarrow>
             (LReturned None, ldr1\<lparr>bufLoaderData := mapDelete tntID (bufLoaderData ldr1)\<rparr>))"

definition contentPass :: "loadOp \<Rightarrow> lenv \<Rightarrow> string \<Rightarrow> string \<Rightarrow> Loader \<Rightarrow> lres \<times> Loader" where
  "contentPass op L loaderType caching ldr =
     (case rowLoop op L loaderType caching ldr of
        (LReturned None, ldr1) \<Rightarrow> lastFlush op L loaderType caching ldr1
      | (LReturned (Some e), ldr1) \<Rightarrow> (LReturned (Some e), ldr1)
      | (LPanicked, ldr1) \<Rightarrow> (LPanicked, ldr1)
      | (LDiverges, ldr1) \<Rightarrow> (LDiverges, ldr1))"

text \<open>processContent will process the content and will store it into database.\<close>

definition processContent :: "lenv \<Rightarrow> string \<Rightarrow> string \<Rightarrow> Loader \<Rightarrow> lres \<times> Loader" where
  "processContent L loaderType caching ldr = contentPass OpStore L loaderType caching ldr"


subsection \<open>processFiles and ProcessFolder\<close>








section \<open>Notions of the statements\<close>

text \<open>
  The RPCs issued between two states, by method; the action methods of the session
  service; and the method of each case of the switch (none for \<open>*none\<close>, \<open>*dryrun\<close>,
  \<open>*cdrs\<close>, \<open>*radauth\<close> and the default case).
\<close>

definition actionMethods :: "string list" where
  "actionMethods = [SessionSv1AuthorizeEvent, SessionSv1InitiateSession, SessionSv1UpdateSession,
                    SessionSv1TerminateSession, SessionSv1ProcessMessage, SessionSv1ProcessEvent]"

definition issued :: "pstate \<Rightarrow> pstate \<Rightarrow> string list" where
  "issued st st' = map fst (drop (length (calls st)) (calls st'))"

definition actionsIssued :: "pstate \<Rightarrow> pstate \<Rightarrow> string list" where
  "actionsIssued st st' = filter (\<lambda>m. m \<in> set actionMethods) (issued st st')"

definition cdrsIssued :: "pstate \<Rightarrow> pstate \<Rightarrow> string list" where
  "cdrsIssued st st' = filter (\<lambda>m. m = SessionSv1ProcessCDR) (issued st st')"

definition actionMethod :: "string \<Rightarrow> string option" where
  "actionMethod reqType =
     (case switchCase reqType of
        CaseAuthorize \<Rightarrow> Some SessionSv1AuthorizeEvent
      | CaseInitiate \<Rightarrow> Some SessionSv1InitiateSession
      | CaseUpdate \<Rightarrow> Some SessionSv1UpdateSession
      | CaseTerminate \<Rightarrow> Some SessionSv1TerminateSession
      | CaseMessage \<Rightarrow> Some SessionSv1ProcessMessage
      | CaseEvent \<Rightarrow> Some SessionSv1ProcessEvent
      | _ \<Rightarrow> None)"

text \<open>
  An example environment, in which every collaborator succeeds, an example processor
  with given flags, and an example packet.
\<close>

definition exEnv :: env where
  "exEnv =
     \<lparr>filterS_Pass = (\<lambda>tnt fltrs ar. (True, None)),
      SetFields = (\<lambda>flds ar. (None, ar)),
      NMAsCGREvent = (\<lambda>nm tnt. \<lparr>cgrTenant = tnt, Event = map_of nm\<rparr>),
      NMAsMapInterface = (\<lambda>nm. nm),
      ExtractArgsFromOpts =
        (\<lambda>opts dsp pag. ((\<lparr>ArgDispatcher = None, RoutePaginator = Some ''paginator''\<rparr>, None), opts)),
      connMgr_Call = (\<lambda>m a n. (None, \<lparr>MaxUsage = IDuration 60, AsNavigableMap = Map.empty\<rparr>)),
      radauthReq = (\<lambda>fl req ar rpl. ((True, None), rpl)),
      radReplyAppendAttributes = (\<lambda>rpl nm. (None, rpl)),
      processorTenant = (\<lambda>p. ''cgrates.org'')\<rparr>"

definition exProcessor :: "FlagsWithParams \<Rightarrow> RequestProcessor" where
  "exProcessor fl =
     \<lparr>ID = ''proc'', Tenant = [], Timezone = [], Filters = [], Flags = fl,
      RequestFields = [], ReplyFields = []\<rparr>"

definition exPacket :: Packet where
  "exPacket = \<lparr>RemoteAddr = ''127.0.0.1:1812'', Code = AccessRequest,
               AVPs = [(''User-Name'', ''1001'')]\<rparr>"

text \<open>
  Example processors, states and environments: a processor that terminates a session and
  writes the CDR; the state a handler starts from; an environment in which the request
  field \<open>Account\<close> cannot be set, with a processor that needs it; an environment in
  which every RPC fails with an error of the rating subsystem, with a processor of
  \<open>*message\<close>.
\<close>

definition exTerminate :: RequestProcessor where
  "exTerminate = exProcessor [(MetaTerminate, []), (MetaAccounts, []), (MetaCDRs, [])]"

definition exState :: pstate where
  "exState = newState exPacket AccessAccept"

definition exFailingFields :: env where
  "exFailingFields =
     exEnv\<lparr>SetFields := (\<lambda>flds ar. (if flds = [''Account''] then Some ''NOT_FOUND:Account''
                                        else None, ar))\<rparr>"

definition exAuthorizeCDRs :: RequestProcessor where
  "exAuthorizeCDRs =
     (exProcessor [(MetaAuthorize, []), (MetaCDRs, [])])\<lparr>RequestFields := [''Account'']\<rparr>"

definition exRals :: env where
  "exRals =
     exEnv\<lparr>connMgr_Call :=
             (\<lambda>m a n. (Some ''RALS_ERROR:NOT_ENOUGH_BALANCE'',
                         \<lparr>MaxUsage = IDuration 0, AsNavigableMap = Map.empty\<rparr>))\<rparr>"

definition exMessage :: RequestProcessor where
  "exMessage = exProcessor [(MetaMessage, []), (MetaAccounts, []), (MetaCDRs, [])]"

text \<open>
  The same with a reply field \<open>Reply-Message\<close> that is filled from \<open>*cgrep.Error\<close>.
\<close>

definition exRalsReply :: env where
  "exRalsReply =
     exRals\<lparr>SetFields :=
             (\<lambda>flds ar. if flds = [''Reply-Message'']
                          then (None, ar\<lparr>Reply := Reply ar @
                                   (case CGRReply ar Error of
                                      Some v \<Rightarrow> [(''Reply-Message'', v)] | None \<Rightarrow> [])\<rparr>)
                          else (None, ar))\<rparr>"

definition exMessageReply :: RequestProcessor where
  "exMessageReply = exMessage\<lparr>ReplyFields := [''Reply-Message'']\<rparr>"

definition exEvent :: CGREvent where
  "exEvent = \<lparr>cgrTenant = [], Event = Map.empty\<rparr>"

definition exArgs :: ExtractedArgs where
  "exArgs = \<lparr>ArgDispatcher = None, RoutePaginator = Some ''paginator''\<rparr>"

text \<open>
  The environment that extracts the same arguments and reports no error; the warning
  logged for a failed extraction; two states that agree on everything but that warning.
\<close>

definition withoutExtractError :: "env \<Rightarrow> env" where
  "withoutExtractError E =
     E\<lparr>ExtractArgsFromOpts :=
         (\<lambda>opts dsp pag. case ExtractArgsFromOpts E opts dsp pag of
                            ((cgrArgs, xerr), opts1) \<Rightarrow> ((cgrArgs, None), opts1))\<rparr>"

definition extractWarning :: logEntry where
  "extractWarning = LogWarning ''args extraction failed''"

definition otherLogs :: "pstate \<Rightarrow> logEntry list" where
  "otherLogs st = filter (\<lambda>l. l \<noteq> extractWarning) (logs st)"

definition sameButWarning :: "pstate \<Rightarrow> pstate \<Rightarrow> bool" where
  "sameButWarning st st' =
     (agReq st = agReq st' \<and> rpl st = rpl st' \<and> calls st = calls st'
      \<and> otherLogs st = otherLogs st')"


definition exNoneContinue :: RequestProcessor where
  "exNoneContinue = exProcessor [(META_NONE, []), (MetaContinue, [])]"



text \<open>
  An observer of the seeding: filters that fail with an error unless the request they are
  given carries \<open>*radReqType\<close> = \<open>*radAuth\<close> in its \<open>*vars\<close>. An accounting packet, a
  processor of \<open>*none\<close>, and filters that pass exactly when \<open>*radReqType\<close> is set.
\<close>

definition seenSeeded :: "env \<Rightarrow> env" where
  "seenSeeded E =
     E\<lparr>filterS_Pass :=
         (\<lambda>tnt fltrs ar. if Vars ar MetaRadReqType = Some (IString MetaRadAuth)
                           then filterS_Pass E tnt fltrs ar
                           else (False, Some ''*radReqType is not *radAuth''))\<rparr>"

definition exAcctPacket :: Packet where
  "exAcctPacket = \<lparr>RemoteAddr = ''127.0.0.1:1813'', Code = AccountingRequest,
                   AVPs = [(''Acct-Status-Type'', ''Start'')]\<rparr>"

definition exNone :: RequestProcessor where
  "exNone = exProcessor [(META_NONE, [])]"

definition exNeedsReqType :: env where
  "exNeedsReqType =
     exEnv\<lparr>filterS_Pass := (\<lambda>tnt fltrs ar. (Vars ar MetaRadReqType \<noteq> None, None))\<rparr>"



text \<open>
  An example loader: a record \<open>[tenant, id, ...]\<close> decodes to the fields \<open>Tenant\<close> and
  \<open>ID\<close>, the key of a row is \<open>tenant:id\<close>, nothing fails; the input directory holds one
  file for each of two loader types. Then the same with a data manager that fails for
  \<open>*attributes\<close>, and a loader whose type \<open>*attributes\<close> has two opened readers, the second
  of which gives a read error at its first line.
\<close>

definition exUpdateFromCSV ::
  "string \<Rightarrow> string list \<Rightarrow> LoaderData \<Rightarrow> string option \<times> LoaderData" where
  "exUpdateFromCSV fName record lData =
     (None, lData @ (case record of
                       tnt # ident # rest \<Rightarrow> [(''Tenant'', tnt), (''ID'', ident)]
                     | _ \<Rightarrow> [(fName, concat record)]))"

definition exTenantID :: "LoaderData \<Rightarrow> string" where
  "exTenantID lData =
     (case (map_of lData ''Tenant'', map_of lData ''ID'') of
        (Some tnt, Some ident) \<Rightarrow> tnt @ '':'' @ ident
      | _ \<Rightarrow> [])"

definition exLoaderEnv :: lenv where
  "exLoaderEnv =
     \<lparr>UpdateFromCSV = exUpdateFromCSV, TenantID = exTenantID,
      storeErr = (\<lambda>loaderType lds caching n. None),
      removeErr = (\<lambda>loaderType lds caching n. None),
      openErr = (\<lambda>fName. None), renameErr = (\<lambda>fName. None), lockErr = None\<rparr>"



definition exTwoReaders :: Loader where
  "exTwoReaders =
     \<lparr>lockFilename = ''.cgr.lck'',
      rdrs = [(''*attributes'',
               [(''Attributes.csv'',
                 Some \<lparr>fileName = ''Attributes.csv'',
                       csvRdr = [Record [''cgrates.org'', ''ATTR_1'']]\<rparr>),
                (''Attributes2.csv'',
                 Some \<lparr>fileName = ''Attributes2.csv'',
                       csvRdr = [ReadError ''wrong number of fields'']\<rparr>)])],
      bufLoaderData = [],
      tpInDir = [], tpOutDir = [], stored = [], removed = [], ldrLogs = []\<rparr>"

text \<open>
  The same loader with a third reader, of a file that has been read to its end, visited
  last: the state in which processFiles enters processContent after it has opened the
  last file of a type whose first file was empty.
\<close>

definition exThreeReaders :: Loader where
  "exThreeReaders =
     exTwoReaders\<lparr>rdrs :=
       [(''*attributes'',
         [(''Attributes.csv'',
           Some \<lparr>fileName = ''Attributes.csv'',
                 csvRdr = [Record [''cgrates.org'', ''ATTR_1'']]\<rparr>),
          (''Attributes2.csv'',
           Some \<lparr>fileName = ''Attributes2.csv'',
                 csvRdr = [ReadError ''wrong number of fields'']\<rparr>),
          (''Empty.csv'', Some \<lparr>fileName = ''Empty.csv'', csvRdr = []\<rparr>)])]\<rparr>"

text \<open>
  The store invocations between two states are all successful but possibly the last one
  (and all of them when \<open>ok\<close>): no invocation follows a failed one.
\<close>

definition okCalls :: "(string \<times> (string \<times> LoaderData list) \<times> string option) list \<Rightarrow> bool" where
  "okCalls xs = list_all (\<lambda>c. snd (snd c) = None) xs"

definition storesAfter :: "Loader \<Rightarrow> Loader \<Rightarrow> bool \<Rightarrow> bool" where
  "storesAfter ldr ldr' ok =
     (\<exists>xs. stored ldr' = stored ldr @ xs \<and> okCalls (butlast xs) \<and> (ok \<longrightarrow> okCalls xs))"



section \<open>Properties of the RADIUS agent\<close>

subsection \<open>The request type and the switch\<close>

lemmas meta_defs = MetaDryRun_def MetaAuthorize_def MetaInitiate_def MetaUpdate_def
  MetaTerminate_def MetaMessage_def MetaCDRs_def MetaEvent_def META_NONE_def MetaRadauth_def

lemmas method_defs = SessionSv1AuthorizeEvent_def SessionSv1InitiateSession_def
  SessionSv1UpdateSession_def SessionSv1TerminateSession_def SessionSv1ProcessMessage_def
  SessionSv1ProcessEvent_def SessionSv1ProcessCDR_def

lemma distinct_reqTypes: "distinct reqTypes"
  by (simp add: reqTypes_def meta_defs)

lemma cdr_not_action: "SessionSv1ProcessCDR \<notin> set actionMethods"
  by (simp add: actionMethods_def method_defs)

lemma switchCase_simps:
  "switchCase META_NONE = CaseNone" "switchCase MetaDryRun = CaseDryRun"
  "switchCase MetaAuthorize = CaseAuthorize" "switchCase MetaInitiate = CaseInitiate"
  "switchCase MetaUpdate = CaseUpdate" "switchCase MetaTerminate = CaseTerminate"
  "switchCase MetaMessage = CaseMessage" "switchCase MetaEvent = CaseEvent"
  "switchCase MetaCDRs = CaseCDRs" "switchCase MetaRadauth = CaseRadauth"
  by (simp_all add: switchCase_def meta_defs)

lemma switchCase_Default: "(switchCase t = CaseDefault) = (t \<notin> set reqTypes)"
  by (auto simp: switchCase_def reqTypes_def)

lemma actionMethod_in: "actionMethod t = Some m \<Longrightarrow> m \<in> set actionMethods"
  by (auto simp: actionMethod_def actionMethods_def split: switchLabel.splits)

lemma actionMethod_none:
  "actionMethod META_NONE = None" "actionMethod MetaDryRun = None"
  "actionMethod MetaRadauth = None" "actionMethod MetaCDRs = None"
  by (simp_all add: actionMethod_def switchCase_simps)

lemma callSession_eq:
  "callSession E m a rplyOf upd cgrEv st =
     (ActDone, upd (fst (connMgr_Call E m a (length (calls st))))
                   (snd (connMgr_Call E m a (length (calls st)))) cgrEv,
      st\<lparr>calls := calls st @ [(m, a)],
         agReq := snd (setCGRReply (rplyOf (snd (connMgr_Call E m a (length (calls st)))))
                        (fst (connMgr_Call E m a (length (calls st)))) (agReq st))\<rparr>)"
  by (cases "connMgr_Call E m a (length (calls st))")
     (simp add: callSession_def sessionCall_def setCGRReply_def)

lemma radauthCase_eq:
  "\<exists>st1. radauthCase E fl req cgrEv st = (ActDone, cgrEv, st1) \<and> calls st1 = calls st"
  by (auto simp: radauthCase_def setCGRReplyError_def split: prod.splits option.splits)

lemma processAction_calls:
  assumes "processAction E req p reqType cgrEv cgrArgs opts st = (r, cgrEv1, st1)"
  shows "\<exists>a. calls st1 = calls st @
           (if r = ActDone then (case actionMethod reqType of None \<Rightarrow> [] | Some m \<Rightarrow> [(m, a)])
            else [])"
proof -
  obtain st2 where ra: "radauthCase E (Flags p) req cgrEv st = (ActDone, cgrEv, st2)"
      "calls st2 = calls st"
    using radauthCase_eq by blast
  show ?thesis
    using assms ra
    by (cases "switchCase reqType")
       (auto simp: processAction_def actionMethod_def callSession_eq addLog_def Let_def
             split: option.splits)
qed

lemma processAction_known:
  assumes "processAction E req p reqType cgrEv cgrArgs opts st = (ActReturn b e, cgrEv1, st1)"
  shows "reqType \<notin> set reqTypes \<and> \<not> b \<and> e = Some (''unknown request type: <'' @ reqType @ ''>'')
         \<and> st1 = st"
proof -
  obtain st2 where ra: "radauthCase E (Flags p) req cgrEv st = (ActDone, cgrEv, st2)"
    using radauthCase_eq by blast
  show ?thesis
    using assms ra switchCase_Default[of reqType]
    by (cases "switchCase reqType")
       (auto simp: processAction_def callSession_eq Let_def split: option.splits)
qed

lemma prepareAction_calls:
  "prepareAction E p st1 = (reqType, cgrEv, cgrArgs, opts, st3)
     \<Longrightarrow> calls st3 = calls st1 \<and> reqType = reqTypeOf (Flags p) \<and> agReq st3 = agReq st1
         \<and> rpl st3 = rpl st1"
  by (auto simp: prepareAction_def Let_def addLog_def split: prod.splits if_splits)

lemma finishRequest_calls:
  "finishRequest E p reqType cgrEv cgrArgs st = (out, st')
     \<Longrightarrow> out \<noteq> Panicked \<and>
         map fst (calls st') = map fst (calls st) @
           (if HasKey (Flags p) MetaCDRs then [SessionSv1ProcessCDR] else [])"
  by (auto simp: finishRequest_def Let_def addLog_def sessionCall_def setCGRReplyError_def
           split: prod.splits if_splits option.splits)

lemma reqTypeOf_cases:
  "reqTypeOf fl \<in> set reqTypes \<and> HasKey fl (reqTypeOf fl)
   \<or> reqTypeOf fl = [] \<and> (\<forall>t \<in> set reqTypes. \<not> HasKey fl t)"
  by (auto simp: reqTypeOf_def find_None_iff find_Some_iff split: option.splits)

lemma empty_not_reqType: "[] \<notin> set reqTypes"
  by (simp add: reqTypes_def meta_defs)

lemma MetaCDRs_reqType: "MetaCDRs \<in> set reqTypes"
  by (simp add: reqTypes_def)


lemma reqTypeOf_first:
  assumes "i < length reqTypes" "HasKey fl (reqTypes ! i)" "\<forall>j < i. \<not> HasKey fl (reqTypes ! j)"
  shows "reqTypeOf fl = reqTypes ! i"
proof -
  have "find (HasKey fl) reqTypes = Some (reqTypes ! i)"
    unfolding find_Some_iff using assms by blast
  then show ?thesis by (simp add: reqTypeOf_def)
qed

lemma reqTypeOf_none:
  assumes "\<forall>t \<in> set reqTypes. \<not> HasKey fl t"
  shows "reqTypeOf fl = []"
  using assms by (simp add: reqTypeOf_def find_None_iff[THEN iffD2])

lemma processAction_unknown:
  "reqType \<notin> set reqTypes \<Longrightarrow>
   processAction E req p reqType cgrEv cgrArgs opts st =
     (ActReturn False (Some (''unknown request type: <'' @ reqType @ ''>'')), cgrEv, st)"
  using switchCase_Default[of reqType] by (simp add: processAction_def)

text \<open>
  Claim C2, as amended. The request type is the first flag of the fixed order
  \<open>*dryrun, *authorize, *initiate, *update, *terminate, *message, *cdrs, *event, *none,
  *radauth\<close> that the processor's flags hold. When they hold none of them, the request
  type is the empty string, processRequest never returns \<open>(true, nil)\<close> and never panics;
  and when moreover the filters pass and the request fields are set without error, it
  returns \<open>(false, unknown request type: <>)\<close> and has issued no RPC. (With filters that
  do not pass it returns \<open>(false, nil)\<close>: no error.)
\<close>

theorem unknown_request_type:
  "(\<forall>i < length reqTypes.
       HasKey (Flags p) (reqTypes ! i) \<and> (\<forall>j < i. \<not> HasKey (Flags p) (reqTypes ! j))
       \<longrightarrow> reqTypeOf (Flags p) = reqTypes ! i)
   \<and> ((\<forall>t \<in> set reqTypes. \<not> HasKey (Flags p) t) \<longrightarrow>
        reqTypeOf (Flags p) = [] \<and>
        fst (processRequest E req p st) \<noteq> Returned True None \<and>
        fst (processRequest E req p st) \<noteq> Panicked \<and>
        (matches E p st \<and> fst (SetFields E (RequestFields p) (agReq st)) = None \<longrightarrow>
           fst (processRequest E req p st)
             = Returned False (Some ''unknown request type: <>'') \<and>
           calls (snd (processRequest E req p st)) = calls st))"
proof (intro conjI allI impI)
  fix i
  assume "i < length reqTypes"
    and "HasKey (Flags p) (reqTypes ! i) \<and> (\<forall>j<i. \<not> HasKey (Flags p) (reqTypes ! j))"
  then show "reqTypeOf (Flags p) = reqTypes ! i"
    using reqTypeOf_first by blast
next
  assume none: "\<forall>t\<in>set reqTypes. \<not> HasKey (Flags p) t"
  then show rt: "reqTypeOf (Flags p) = []" by (rule reqTypeOf_none)
  have unk: "processAction E req p [] cgrEv cgrArgs opts st3 =
      (ActReturn False (Some ''unknown request type: <>''), cgrEv, st3)"
    for cgrEv cgrArgs opts st3
    using processAction_unknown[OF empty_not_reqType] by simp
  obtain pass ferr where f: "filterS_Pass E (agTenant (agReq st)) (Filters p) (agReq st) = (pass, ferr)"
    by (cases "filterS_Pass E (agTenant (agReq st)) (Filters p) (agReq st)")
  obtain serr ar where sf: "SetFields E (RequestFields p) (agReq st) = (serr, ar)"
    by (cases "SetFields E (RequestFields p) (agReq st)")
  obtain reqType cgrEv cgrArgs opts st3 where
    pa: "prepareAction E p (st\<lparr>agReq := ar\<rparr>) = (reqType, cgrEv, cgrArgs, opts, st3)"
    by (cases "prepareAction E p (st\<lparr>agReq := ar\<rparr>)")
  from prepareAction_calls[OF pa] rt have rt3: "reqType = []" and c3: "calls st3 = calls st"
    by simp_all
  show "fst (processRequest E req p st) \<noteq> Returned True None"
    using f sf pa rt3 unk by (auto simp: processRequest_def split: option.splits)
  show "fst (processRequest E req p st) \<noteq> Panicked"
    using f sf pa rt3 unk by (auto simp: processRequest_def split: option.splits)
  {
    assume "matches E p st \<and> fst (SetFields E (RequestFields p) (agReq st)) = None"
    then have run: "processRequest E req p st =
        (Returned False (Some ''unknown request type: <>''), st3)"
      using f sf pa rt3 unk by (auto simp: processRequest_def matches_def)
    show "fst (processRequest E req p st) = Returned False (Some ''unknown request type: <>'')"
      using run by simp
    show "calls (snd (processRequest E req p st)) = calls st"
      using run c3 by simp
  }
qed


text \<open>
  The theorem at work: of \<open>*cdrs\<close> and \<open>*terminate\<close> the request type is \<open>*terminate\<close>
  (index 4 of the order); flags with no action among them end in the error.
\<close>

theorem unknown_request_type_witness:
  "reqTypeOf [(MetaCDRs, []), (MetaTerminate, [])] = MetaTerminate
   \<and> fst (processRequest exEnv exPacket (exProcessor [(MetaContinue, [])])
              (newState exPacket AccessAccept))
       = Returned False (Some ''unknown request type: <>'')"
proof
  let ?fl = "[(MetaCDRs, []), (MetaTerminate, [])]"
  have has: "HasKey ?fl (reqTypes ! 4)"
    by (simp add: reqTypes_def HasKey_def)
  have before: "\<forall>j < 4. \<not> HasKey ?fl (reqTypes ! j)"
    by (simp add: reqTypes_def HasKey_def meta_defs less_Suc_eq numeral_eq_Suc All_less_Suc)
  have "(4::nat) < length reqTypes" by (simp add: reqTypes_def)
  with has before
    unknown_request_type[of "exProcessor ?fl" exEnv exPacket "newState exPacket AccessAccept"]
  have "reqTypeOf ?fl = reqTypes ! 4"
    by (simp add: exProcessor_def)
  then show "reqTypeOf ?fl = MetaTerminate" by (simp add: reqTypes_def)
next
  let ?p = "exProcessor [(MetaContinue, [])]"
  let ?st = "newState exPacket AccessAccept"
  have none: "\<forall>t \<in> set reqTypes. \<not> HasKey (Flags ?p) t"
    by (simp add: reqTypes_def HasKey_def exProcessor_def meta_defs MetaContinue_def)
  have m: "matches exEnv ?p ?st" by (simp add: matches_def exEnv_def)
  have sf: "fst (SetFields exEnv (RequestFields ?p) (agReq ?st)) = None"
    by (simp add: exEnv_def)
  from unknown_request_type[of ?p exEnv exPacket ?st] none m sf
  show "fst (processRequest exEnv exPacket ?p ?st)
        = Returned False (Some ''unknown request type: <>'')"
    by blast
qed

text \<open>
  Claim C2 as stated fails where the filters do not pass: the processor holds no action
  flag and processRequest returns \<open>(false, nil)\<close>, no error.
\<close>

theorem unknown_request_type_counterexample:
  "find (HasKey (Flags (exProcessor [(MetaContinue, [])]))) reqTypes = None
   \<and> processRequest (exEnv\<lparr>filterS_Pass := (\<lambda>tnt fltrs ar. (False, None))\<rparr>) exPacket
        (exProcessor [(MetaContinue, [])]) (newState exPacket AccessAccept)
       = (Returned False None, newState exPacket AccessAccept)"
  by (simp add: reqTypes_def HasKey_def exProcessor_def meta_defs MetaContinue_def
        processRequest_def exEnv_def)

subsection \<open>The RPCs of one processor\<close>

lemma issued_append:
  "map fst (calls st') = map fst (calls st) @ xs \<Longrightarrow> issued st st' = xs"
proof -
  assume a: "map fst (calls st') = map fst (calls st) @ xs"
  have "issued st st' = drop (length (map fst (calls st))) (map fst (calls st'))"
    by (simp add: issued_def drop_map)
  also have "\<dots> = xs" unfolding a by simp
  finally show ?thesis .
qed

lemma unknown_no_cdrs: "reqTypeOf fl \<notin> set reqTypes \<Longrightarrow> \<not> HasKey fl MetaCDRs"
  using reqTypeOf_cases[of fl] MetaCDRs_reqType by blast

lemma processRequest_issued:
  "\<exists>A C. issued st (snd (processRequest E req p st)) = A @ C
      \<and> (A = [] \<or> (\<exists>m. A = [m] \<and> actionMethod (reqTypeOf (Flags p)) = Some m))
      \<and> (C = [] \<or> C = [SessionSv1ProcessCDR])
      \<and> (matches E p st \<and> fst (SetFields E (RequestFields p) (agReq st)) = None
           \<and> fst (processRequest E req p st) \<noteq> Panicked
          \<longrightarrow> (C = [SessionSv1ProcessCDR]) = HasKey (Flags p) MetaCDRs)"
proof -
  obtain pass ferr where f: "filterS_Pass E (agTenant (agReq st)) (Filters p) (agReq st) = (pass, ferr)"
    by (cases "filterS_Pass E (agTenant (agReq st)) (Filters p) (agReq st)")
  obtain serr ar where sf: "SetFields E (RequestFields p) (agReq st) = (serr, ar)"
    by (cases "SetFields E (RequestFields p) (agReq st)")
  obtain reqType cgrEv cgrArgs opts st3 where
    pa: "prepareAction E p (st\<lparr>agReq := ar\<rparr>) = (reqType, cgrEv, cgrArgs, opts, st3)"
    by (cases "prepareAction E p (st\<lparr>agReq := ar\<rparr>)")
  obtain r cgrEv1 st4 where
    act: "processAction E req p reqType cgrEv cgrArgs opts st3 = (r, cgrEv1, st4)"
    by (cases "processAction E req p reqType cgrEv cgrArgs opts st3")
  obtain out st5 where fin: "finishRequest E p reqType cgrEv1 cgrArgs st4 = (out, st5)"
    by (cases "finishRequest E p reqType cgrEv1 cgrArgs st4")
  from prepareAction_calls[OF pa]
  have rt: "reqType = reqTypeOf (Flags p)" and c3: "calls st3 = calls st" by simp_all
  let ?st' = "snd (processRequest E req p st)"
  consider (skip) "ferr \<noteq> None \<or> \<not> pass"
    | (fields) e where "ferr = None" "pass" "serr = Some e"
    | (panic) "ferr = None" "pass" "serr = None" "r = ActPanic"
    | (ret) b e where "ferr = None" "pass" "serr = None" "r = ActReturn b e"
    | (goes_on) "ferr = None" "pass" "serr = None" "r = ActDone"
    by (cases serr; cases r) auto
  then show ?thesis
  proof cases
    case skip
    then have "processRequest E req p st = (Returned pass ferr, st)"
      using f by (auto simp: processRequest_def)
    then have i: "issued st ?st' = []" by (simp add: issued_def)
    have nm: "\<not> matches E p st" using skip f by (auto simp: matches_def)
    show ?thesis
      by (rule exI[of _ "[]"], rule exI[of _ "[]"]) (simp add: i nm)
  next
    case fields
    then have "processRequest E req p st = (Returned False (Some e), st\<lparr>agReq := ar\<rparr>)"
      using f sf by (simp add: processRequest_def)
    then have i: "issued st ?st' = []" by (simp add: issued_def)
    have nf: "fst (SetFields E (RequestFields p) (agReq st)) \<noteq> None"
      using sf fields by simp
    show ?thesis
      by (rule exI[of _ "[]"], rule exI[of _ "[]"]) (simp add: i nf)
  next
    case panic
    then have run: "processRequest E req p st = (Panicked, st4)"
      using f sf pa act by (simp add: processRequest_def)
    from processAction_calls[OF act] panic c3 have "calls st4 = calls st" by simp
    with run have i: "issued st ?st' = []" by (simp add: issued_def)
    have o: "fst (processRequest E req p st) = Panicked" using run by simp
    show ?thesis
      by (rule exI[of _ "[]"], rule exI[of _ "[]"]) (simp add: i o)
  next
    case ret
    then have run: "processRequest E req p st = (Returned b e, st4)"
      using f sf pa act by (simp add: processRequest_def)
    from processAction_calls[OF act] ret c3 have "calls st4 = calls st" by simp
    with run have i: "issued st ?st' = []" by (simp add: issued_def)
    have nc: "\<not> HasKey (Flags p) MetaCDRs"
      using processAction_known[OF act[unfolded ret(4)]] rt unknown_no_cdrs by blast
    show ?thesis
      by (rule exI[of _ "[]"], rule exI[of _ "[]"]) (simp add: i nc)
  next
    case goes_on
    then have run: "processRequest E req p st = (out, st5)"
      using f sf pa act fin by (simp add: processRequest_def)
    let ?C = "if HasKey (Flags p) MetaCDRs then [SessionSv1ProcessCDR] else []"
    from processAction_calls[OF act] goes_on c3 obtain a where
      c4: "calls st4 = calls st @
             (case actionMethod reqType of None \<Rightarrow> [] | Some m \<Rightarrow> [(m, a)])"
      by auto
    let ?A = "case actionMethod reqType of None \<Rightarrow> [] | Some m \<Rightarrow> [m]"
    have "map fst (calls st5) = map fst (calls st) @ ?A @ ?C"
      using finishRequest_calls[OF fin] c4 by (simp split: option.splits)
    from issued_append[OF this] run have i: "issued st ?st' = ?A @ ?C" by simp
    have a: "?A = [] \<or> (\<exists>m. ?A = [m] \<and> actionMethod (reqTypeOf (Flags p)) = Some m)"
      using rt by (simp split: option.splits)
    show ?thesis
      by (rule exI[of _ ?A], rule exI[of _ ?C]) (simp add: i a)
  qed
qed

text \<open>
  Claim C1, as amended. For a processor whose filters pass, the RPCs that processRequest
  issues are the action RPCs followed by the ProcessCDR requests; there is at most one
  action RPC, and none when the request type is \<open>*none\<close>, \<open>*dryrun\<close>, \<open>*radauth\<close> or
  \<open>*cdrs\<close>; there is at most one ProcessCDR request; and when the request fields were
  set without error and processRequest did not panic, the ProcessCDR request is issued
  exactly when the flags hold \<open>*cdrs\<close>.
\<close>

theorem rpcs_of_a_processor:
  assumes "matches E p st"
  shows "issued st (snd (processRequest E req p st))
           = actionsIssued st (snd (processRequest E req p st))
             @ cdrsIssued st (snd (processRequest E req p st))
       \<and> length (actionsIssued st (snd (processRequest E req p st))) \<le> 1
       \<and> (reqTypeOf (Flags p) \<in> {META_NONE, MetaDryRun, MetaRadauth, MetaCDRs}
            \<longrightarrow> actionsIssued st (snd (processRequest E req p st)) = [])
       \<and> length (cdrsIssued st (snd (processRequest E req p st))) \<le> 1
       \<and> (fst (SetFields E (RequestFields p) (agReq st)) = None
            \<and> fst (processRequest E req p st) \<noteq> Panicked
          \<longrightarrow> (cdrsIssued st (snd (processRequest E req p st)) = [SessionSv1ProcessCDR])
               = HasKey (Flags p) MetaCDRs)"
proof -
  let ?st' = "snd (processRequest E req p st)"
  from processRequest_issued[of st E req p] obtain A C where
    ac: "issued st ?st' = A @ C"
    and a: "A = [] \<or> (\<exists>m. A = [m] \<and> actionMethod (reqTypeOf (Flags p)) = Some m)"
    and c: "C = [] \<or> C = [SessionSv1ProcessCDR]"
    and iff: "matches E p st \<and> fst (SetFields E (RequestFields p) (agReq st)) = None
           \<and> fst (processRequest E req p st) \<noteq> Panicked
          \<longrightarrow> (C = [SessionSv1ProcessCDR]) = HasKey (Flags p) MetaCDRs"
    by blast
  have inA: "\<forall>m \<in> set A. m \<in> set actionMethods"
    using a actionMethod_in by auto
  have ninA: "\<forall>m \<in> set A. m \<noteq> SessionSv1ProcessCDR"
    using inA cdr_not_action by auto
  have ninC: "\<forall>m \<in> set C. m \<notin> set actionMethods"
    using c cdr_not_action by auto
  have A: "actionsIssued st ?st' = A"
    using ac inA ninC by (simp add: actionsIssued_def filter_id_conv filter_empty_conv)
  have C: "cdrsIssued st ?st' = C"
    using ac c ninA by (auto simp: cdrsIssued_def filter_empty_conv)
  have none: "reqTypeOf (Flags p) \<in> {META_NONE, MetaDryRun, MetaRadauth, MetaCDRs} \<Longrightarrow> A = []"
    using a actionMethod_none by auto
  show ?thesis
    unfolding A C using ac a c iff assms none by auto
qed

lemmas flag_defs = MetaContinue_def MetaLog_def MetaDispatchers_def MetaAttributes_def
  MetaThresholds_def MetaStats_def MetaResources_def MetaAccounts_def MetaRoutes_def
  MetaRoutesIgnoreErrors_def MetaRoutesEventCost_def MetaFD_def MetaAuth_def MetaInit_def

lemma not_dryrun:
  "META_NONE \<noteq> MetaDryRun" "MetaAuthorize \<noteq> MetaDryRun" "MetaInitiate \<noteq> MetaDryRun"
  "MetaUpdate \<noteq> MetaDryRun" "MetaTerminate \<noteq> MetaDryRun" "MetaMessage \<noteq> MetaDryRun"
  "MetaEvent \<noteq> MetaDryRun" "MetaCDRs \<noteq> MetaDryRun" "MetaRadauth \<noteq> MetaDryRun"
  by (simp_all add: meta_defs)

lemma exProcessor_simps:
  "Filters (exProcessor fl) = []" "RequestFields (exProcessor fl) = []"
  "ReplyFields (exProcessor fl) = []" "Flags (exProcessor fl) = fl"
  by (simp_all add: exProcessor_def)

lemma exTerminate_flags:
  "reqTypeOf (Flags exTerminate) = MetaTerminate"
  "HasKey (Flags exTerminate) MetaCDRs" "\<not> HasKey (Flags exTerminate) MetaLog"
  by (simp_all add: exTerminate_def exProcessor_def reqTypeOf_def reqTypes_def HasKey_def
        meta_defs flag_defs)

lemma exEnv_simps:
  "filterS_Pass exEnv tnt fltrs ar = (True, None)"
  "SetFields exEnv flds ar = (None, ar)"
  "ExtractArgsFromOpts exEnv opts dsp pag =
     ((\<lparr>ArgDispatcher = None, RoutePaginator = Some ''paginator''\<rparr>, None), opts)"
  "connMgr_Call exEnv m a n = (None, \<lparr>MaxUsage = IDuration 60, AsNavigableMap = Map.empty\<rparr>)"
  by (simp_all add: exEnv_def)

lemma exTerminate_run:
  "fst (processRequest exEnv exPacket exTerminate exState) = Returned True None
   \<and> map fst (calls (snd (processRequest exEnv exPacket exTerminate exState)))
       = [SessionSv1TerminateSession, SessionSv1ProcessCDR]"
  by (simp add: processRequest_def prepareAction_def processAction_def
        switchCase_simps callSession_eq finishRequest_def sessionCall_def Let_def
        exEnv_simps exTerminate_flags not_dryrun exState_def newState_def)

text \<open>
  The theorem at work, on the flags \<open>*terminate, *accounts, *cdrs\<close>: TerminateSession,
  then ProcessCDR.
\<close>

theorem rpcs_of_a_processor_witness:
  "matches exEnv exTerminate exState
   \<and> issued exState (snd (processRequest exEnv exPacket exTerminate exState))
       = [SessionSv1TerminateSession, SessionSv1ProcessCDR]
   \<and> actionsIssued exState (snd (processRequest exEnv exPacket exTerminate exState))
       = [SessionSv1TerminateSession]
   \<and> cdrsIssued exState (snd (processRequest exEnv exPacket exTerminate exState))
       = [SessionSv1ProcessCDR]"
proof -
  have m: "matches exEnv exTerminate exState"
    by (simp add: matches_def exEnv_simps)
  have i: "issued exState (snd (processRequest exEnv exPacket exTerminate exState))
       = [SessionSv1TerminateSession, SessionSv1ProcessCDR]"
    using exTerminate_run by (simp add: issued_def exState_def newState_def drop_map)
  have sf: "fst (SetFields exEnv (RequestFields exTerminate) (agReq exState)) = None"
    by (simp add: exEnv_simps)
  have np: "fst (processRequest exEnv exPacket exTerminate exState) \<noteq> Panicked"
    using exTerminate_run by simp
  from rpcs_of_a_processor[OF m, of exPacket] sf np exTerminate_flags(2)
  have c: "cdrsIssued exState (snd (processRequest exEnv exPacket exTerminate exState))
       = [SessionSv1ProcessCDR]"
    and a: "issued exState (snd (processRequest exEnv exPacket exTerminate exState))
           = actionsIssued exState (snd (processRequest exEnv exPacket exTerminate exState))
             @ cdrsIssued exState (snd (processRequest exEnv exPacket exTerminate exState))"
    by simp_all
  from a show ?thesis unfolding c i using m by simp
qed

text \<open>
  Claim C1 as stated fails where the request fields cannot be set: the filters pass and
  the flags hold \<open>*cdrs\<close>, but processRequest returns the error of the request fields
  and issues no RPC at all, so no ProcessCDR request.
\<close>

theorem rpcs_of_a_processor_counterexample:
  "matches exFailingFields exAuthorizeCDRs exState
   \<and> HasKey (Flags exAuthorizeCDRs) MetaCDRs
   \<and> processRequest exFailingFields exPacket exAuthorizeCDRs exState
       = (Returned False (Some ''NOT_FOUND:Account''), exState)
   \<and> cdrsIssued exState (snd (processRequest exFailingFields exPacket exAuthorizeCDRs exState))
       = []"
  by (simp add: matches_def exFailingFields_def exEnv_def exAuthorizeCDRs_def exProcessor_def
        HasKey_def processRequest_def exState_def newState_def cdrsIssued_def issued_def)

subsection \<open>Usage after \<open>*message\<close> and \<open>*event\<close>\<close>

lemma Debit_messageArgs: "Debit (messageArgs fl cgrEv cgrArgs pg opts) = HasKey fl MetaAccounts"
  by (simp add: messageArgs_def)

lemma Usage_setUsage: "Event (setUsage v cgrEv) Usage = Some v"
  by (simp add: setUsage_def)

lemma processRequest_reaches_switch:
  assumes "matches E p st"
    and "SetFields E (RequestFields p) (agReq st) = (None, ar)"
    and "prepareAction E p (st\<lparr>agReq := ar\<rparr>) = (reqType, cgrEv, cgrArgs, opts, st3)"
  shows "processRequest E req p st =
           (case processAction E req p reqType cgrEv cgrArgs opts st3 of
              (ActPanic, cgrEv1, st4) \<Rightarrow> (Panicked, st4)
            | (ActReturn b e, cgrEv1, st4) \<Rightarrow> (Returned b e, st4)
            | (ActDone, cgrEv1, st4) \<Rightarrow> finishRequest E p reqType cgrEv1 cgrArgs st4)"
  using assms by (simp add: processRequest_def matches_def)

lemma finishRequest_reply_mapping:
  assumes "arq = (if HasKey (Flags p) MetaCDRs
                  then (case fst (connMgr_Call E SessionSv1ProcessCDR
                                   (CGREventWithArgDispatcher cgrEv1 (ArgDispatcher cgrArgs))
                                   (length (calls st4))) of
                          Some e \<Rightarrow> (agReq st4)\<lparr>CGRReply := (CGRReply (agReq st4))(Error \<mapsto> IString e)\<rparr>
                        | None \<Rightarrow> agReq st4)
                  else agReq st4)"
  shows "fst (finishRequest E p reqType cgrEv1 cgrArgs st4)
           = (case fst (SetFields E (ReplyFields p) arq) of
                Some e \<Rightarrow> Returned False (Some e) | None \<Rightarrow> Returned True None)"
    and "agReq (snd (finishRequest E p reqType cgrEv1 cgrArgs st4))
           = snd (SetFields E (ReplyFields p) arq)"
    and "calls (snd (finishRequest E p reqType cgrEv1 cgrArgs st4))
           = calls st4 @ (if HasKey (Flags p) MetaCDRs
                          then [(SessionSv1ProcessCDR,
                                 CGREventWithArgDispatcher cgrEv1 (ArgDispatcher cgrArgs))]
                          else [])"
  unfolding assms
  by (auto simp: finishRequest_def sessionCall_def setCGRReplyError_def addLog_def Let_def
      split: prod.splits option.splits)

text \<open>
  Claim C8. In the \<open>*message\<close> and the \<open>*event\<close> case (for \<open>*message\<close>, with a route
  paginator to pass), let the session call return \<open>(err, rply)\<close>. The event's \<open>Usage\<close>
  is \<open>0\<close> when the error has the RALS prefix; otherwise it is the reply's \<open>MaxUsage\<close>
  when the maximum usage is wanted (\<open>*message\<close>: the envelope's debit flag; \<open>*event\<close>:
  one of \<open>*auth\<close>, \<open>*init\<close>, \<open>*update\<close> among the flags); otherwise the event is left as
  it was. processRequest does not return from the switch, whatever the error: the outcome
  of the call is recorded in \<open>*cgrep\<close>, the ProcessCDR request (with \<open>*cdrs\<close> among the
  flags) carries the updated event, and then the reply fields are set, on the agent request
  so obtained. processRequest returns \<open>(true, nil)\<close> with the agent request that SetFields
  leaves, or \<open>(false, err)\<close> with the error of SetFields; it has issued the session call,
  the ProcessCDR request if wanted, and no other.
\<close>

theorem usage_after_message_and_event:
  assumes "matches E p st"
    and "SetFields E (RequestFields p) (agReq st) = (None, ar)"
    and "prepareAction E p (st\<lparr>agReq := ar\<rparr>) = (reqType, cgrEv, cgrArgs, opts, st3)"
    and "reqType = MetaMessage \<and> RoutePaginator cgrArgs = Some pg \<or> reqType = MetaEvent"
    and "method = (if reqType = MetaMessage then SessionSv1ProcessMessage
                   else SessionSv1ProcessEvent)"
    and "evArgs = (if reqType = MetaMessage then messageArgs (Flags p) cgrEv cgrArgs pg opts
                   else eventArgs (Flags p) cgrEv cgrArgs)"
    and "wantsMaxUsage = (if reqType = MetaMessage then Debit evArgs
                          else HasKey (Flags p) MetaAuth \<or> HasKey (Flags p) MetaInit
                               \<or> HasKey (Flags p) MetaUpdate)"
    and "connMgr_Call E method evArgs (length (calls st3)) = (err, rply)"
    and "cdrArgs = CGREventWithArgDispatcher cgrEv1 (ArgDispatcher cgrArgs)"
    and "cgrEv1 = (if ErrHasPrefix err RalsErrorPrfx then setUsage (IInt 0) cgrEv
                   else if wantsMaxUsage then setUsage (MaxUsage rply) cgrEv else cgrEv)"
    and "arq1 = snd (setCGRReply (Some rply) err ar)"
    and "arq = (if HasKey (Flags p) MetaCDRs
                then (case fst (connMgr_Call E SessionSv1ProcessCDR cdrArgs
                                  (Suc (length (calls st)))) of
                        Some e \<Rightarrow> arq1\<lparr>CGRReply := (CGRReply arq1)(Error \<mapsto> IString e)\<rparr>
                      | None \<Rightarrow> arq1)
                else arq1)"
  shows "(\<exists>st4. processRequest E req p st = finishRequest E p reqType cgrEv1 cgrArgs st4
              \<and> calls st4 = calls st @ [(method, evArgs)]
              \<and> agReq st4 = arq1)
       \<and> CGRReply arq1 Error = Some (IString (case err of None \<Rightarrow> [] | Some e \<Rightarrow> e))
       \<and> (ErrHasPrefix err RalsErrorPrfx \<longrightarrow> Event cgrEv1 Usage = Some (IInt 0))
       \<and> (\<not> ErrHasPrefix err RalsErrorPrfx \<and> wantsMaxUsage
            \<longrightarrow> Event cgrEv1 Usage = Some (MaxUsage rply))
       \<and> (\<not> ErrHasPrefix err RalsErrorPrfx \<and> \<not> wantsMaxUsage \<longrightarrow> cgrEv1 = cgrEv)
       \<and> fst (processRequest E req p st)
           = (case fst (SetFields E (ReplyFields p) arq) of
                Some e \<Rightarrow> Returned False (Some e) | None \<Rightarrow> Returned True None)
       \<and> agReq (snd (processRequest E req p st)) = snd (SetFields E (ReplyFields p) arq)
       \<and> calls (snd (processRequest E req p st))
           = calls st @ (method, evArgs)
               # (if HasKey (Flags p) MetaCDRs then [(SessionSv1ProcessCDR, cdrArgs)] else [])"
proof -
  note run = processRequest_reaches_switch[OF assms(1-3), of req]
  have c3: "calls st3 = calls st"
    using prepareAction_calls[OF assms(3)] by simp
  have a3: "agReq st3 = ar"
    using prepareAction_calls[OF assms(3)] by simp
  have neq: "MetaEvent \<noteq> MetaMessage" by (simp add: meta_defs)
  let ?st4 = "st3\<lparr>calls := calls st3 @ [(method, evArgs)],
                  agReq := snd (setCGRReply (Some rply) err (agReq st3))\<rparr>"
  have act: "processAction E req p reqType cgrEv cgrArgs opts st3 = (ActDone, cgrEv1, ?st4)"
    using assms(4)
  proof
    assume m: "reqType = MetaMessage \<and> RoutePaginator cgrArgs = Some pg"
    then show ?thesis
      using assms(5-8,10)
      by (simp add: processAction_def switchCase_simps callSession_eq Let_def messageUsage_def)
  next
    assume e: "reqType = MetaEvent"
    then show ?thesis
      using neq assms(5-8,10)
      by (simp add: processAction_def switchCase_simps callSession_eq Let_def eventUsage_def)
  qed
  have run': "processRequest E req p st = finishRequest E p reqType cgrEv1 cgrArgs ?st4"
    using run act by simp
  have c4: "calls ?st4 = calls st @ [(method, evArgs)]" and a4: "agReq ?st4 = arq1"
    using c3 a3 assms(11) by simp_all
  have arq: "arq = (if HasKey (Flags p) MetaCDRs
                  then (case fst (connMgr_Call E SessionSv1ProcessCDR
                                   (CGREventWithArgDispatcher cgrEv1 (ArgDispatcher cgrArgs))
                                   (length (calls ?st4))) of
                          Some e \<Rightarrow> (agReq ?st4)\<lparr>CGRReply := (CGRReply (agReq ?st4))(Error \<mapsto> IString e)\<rparr>
                        | None \<Rightarrow> agReq ?st4)
                  else agReq ?st4)"
    unfolding a4 c4 using assms(9,12) by simp
  note fin = finishRequest_reply_mapping[OF arq, of reqType]
  have one: "\<exists>st4. processRequest E req p st = finishRequest E p reqType cgrEv1 cgrArgs st4
              \<and> calls st4 = calls st @ [(method, evArgs)] \<and> agReq st4 = arq1"
    using run' c4 a4 by blast
  have two: "CGRReply arq1 Error = Some (IString (case err of None \<Rightarrow> [] | Some e \<Rightarrow> e))"
    using assms(11) by (simp add: setCGRReply_def split: option.splits)
  have three: "ErrHasPrefix err RalsErrorPrfx \<longrightarrow> Event cgrEv1 Usage = Some (IInt 0)"
    "\<not> ErrHasPrefix err RalsErrorPrfx \<and> wantsMaxUsage
            \<longrightarrow> Event cgrEv1 Usage = Some (MaxUsage rply)"
    "\<not> ErrHasPrefix err RalsErrorPrfx \<and> \<not> wantsMaxUsage \<longrightarrow> cgrEv1 = cgrEv"
    using assms(10) by (simp_all add: Usage_setUsage)
  have four: "fst (processRequest E req p st)
           = (case fst (SetFields E (ReplyFields p) arq) of
                Some e \<Rightarrow> Returned False (Some e) | None \<Rightarrow> Returned True None)"
    "agReq (snd (processRequest E req p st)) = snd (SetFields E (ReplyFields p) arq)"
    unfolding run' using fin(1,2) by simp_all
  have five: "calls (snd (processRequest E req p st))
           = calls st @ (method, evArgs)
               # (if HasKey (Flags p) MetaCDRs then [(SessionSv1ProcessCDR, cdrArgs)] else [])"
    unfolding run' fin(3) c4 using assms(9) by simp
  from one two three four five show ?thesis by blast
qed

lemma exMessageReply_flags:
  "reqTypeOf (Flags exMessageReply) = MetaMessage" "\<not> HasKey (Flags exMessageReply) MetaLog"
  "HasKey (Flags exMessageReply) MetaCDRs"
  "ReplyFields exMessageReply = [''Reply-Message'']" "RequestFields exMessageReply = []"
  by (simp_all add: exMessageReply_def exMessage_def exProcessor_def reqTypeOf_def reqTypes_def
        HasKey_def meta_defs flag_defs)

text \<open>
  The theorem at work: a \<open>*message\<close> processor with \<open>*cdrs\<close> whose session calls fail
  with a RALS error. The CDR carries \<open>Usage = 0\<close>, the reply fields are set
  (\<open>Reply-Message\<close> is the error recorded in \<open>*cgrep\<close>) and the processor is processed.
\<close>

theorem usage_after_message_and_event_witness:
  "matches exRalsReply exMessageReply exState
   \<and> ErrHasPrefix (Some ''RALS_ERROR:NOT_ENOUGH_BALANCE'') RalsErrorPrfx
   \<and> fst (processRequest exRalsReply exPacket exMessageReply exState) = Returned True None
   \<and> Reply (agReq (snd (processRequest exRalsReply exPacket exMessageReply exState)))
       = [(''Reply-Message'', IString ''RALS_ERROR:NOT_ENOUGH_BALANCE'')]
   \<and> calls (snd (processRequest exRalsReply exPacket exMessageReply exState))
       = [(SessionSv1ProcessMessage,
           messageArgs (Flags exMessageReply) exEvent exArgs ''paginator'' []),
          (SessionSv1ProcessCDR, CGREventWithArgDispatcher (setUsage (IInt 0) exEvent) None)]
   \<and> Event (setUsage (IInt 0) exEvent) Usage = Some (IInt 0)"
proof -
  let ?evArgs = "messageArgs (Flags exMessageReply) exEvent exArgs ''paginator'' []"
  let ?rply = "\<lparr>MaxUsage = IDuration 0, AsNavigableMap = Map.empty\<rparr>"
  let ?err = "Some ''RALS_ERROR:NOT_ENOUGH_BALANCE''"
  have m: "matches exRalsReply exMessageReply exState"
    by (simp add: matches_def exRalsReply_def exRals_def exEnv_def)
  have sf: "SetFields exRalsReply (RequestFields exMessageReply) (agReq exState)
              = (None, agReq exState)"
    by (simp add: exRalsReply_def exMessageReply_flags)
  have pa: "prepareAction exRalsReply exMessageReply (exState\<lparr>agReq := agReq exState\<rparr>)
              = (MetaMessage, exEvent, exArgs, [], exState)"
    by (simp add: prepareAction_def exMessageReply_flags exRalsReply_def exRals_def exEnv_def
          exState_def newState_def exEvent_def exArgs_def)
  have kind: "MetaMessage = MetaMessage \<and> RoutePaginator exArgs = Some ''paginator''
              \<or> MetaMessage = MetaEvent"
    by (simp add: exArgs_def)
  have call: "connMgr_Call exRalsReply SessionSv1ProcessMessage ?evArgs (length (calls exState))
                = (?err, ?rply)"
    by (simp add: exRalsReply_def exRals_def)
  have rals: "ErrHasPrefix ?err RalsErrorPrfx"
    by (simp add: ErrHasPrefix_def RalsErrorPrfx_def)
  have disp: "ArgDispatcher exArgs = None" by (simp add: exArgs_def)
  have st: "calls exState = []" "Reply (agReq exState) = []"
    by (simp_all add: exState_def newState_def)
  have cdr: "connMgr_Call exRalsReply SessionSv1ProcessCDR a n = (?err, ?rply)" for a n
    by (simp add: exRalsReply_def exRals_def)
  have rf: "SetFields exRalsReply [''Reply-Message''] arq
              = (None, arq\<lparr>Reply := Reply arq @
                                   (case CGRReply arq Error of
                                      Some v \<Rightarrow> [(''Reply-Message'', v)] | None \<Rightarrow> [])\<rparr>)" for arq
    by (simp add: exRalsReply_def)
  from usage_after_message_and_event[OF m sf pa kind _ _ _ call refl refl refl refl,
         where req = exPacket]
  show ?thesis
    using m rals
    by (simp add: exMessageReply_flags disp st cdr rf Usage_setUsage setCGRReply_def)
qed

subsection \<open>A failed extraction of arguments\<close>

lemma processAction_env:
  "connMgr_Call E' = connMgr_Call E \<Longrightarrow> radauthReq E' = radauthReq E
     \<Longrightarrow> processAction E' req p reqType cgrEv cgrArgs opts st
         = processAction E req p reqType cgrEv cgrArgs opts st"
  by (cases "switchCase reqType")
     (simp_all add: processAction_def callSession_def sessionCall_def radauthCase_def
        Let_def split: option.splits)

lemma finishRequest_env:
  "connMgr_Call E' = connMgr_Call E \<Longrightarrow> SetFields E' = SetFields E
     \<Longrightarrow> finishRequest E' p reqType cgrEv cgrArgs st = finishRequest E p reqType cgrEv cgrArgs st"
  by (simp add: finishRequest_def sessionCall_def)

lemma processAction_sameButWarning:
  assumes "sameButWarning st st'"
  shows "fst (processAction E req p reqType cgrEv cgrArgs opts st)
           = fst (processAction E req p reqType cgrEv cgrArgs opts st')
       \<and> fst (snd (processAction E req p reqType cgrEv cgrArgs opts st))
           = fst (snd (processAction E req p reqType cgrEv cgrArgs opts st'))
       \<and> sameButWarning (snd (snd (processAction E req p reqType cgrEv cgrArgs opts st)))
            (snd (snd (processAction E req p reqType cgrEv cgrArgs opts st')))"
  using assms
  by (cases "switchCase reqType")
     (auto simp: processAction_def callSession_eq radauthCase_def addLog_def Let_def
           sameButWarning_def otherLogs_def setCGRReplyError_def extractWarning_def
           split: option.splits prod.splits)

lemma finishRequest_sameButWarning:
  assumes "sameButWarning st st'"
  shows "fst (finishRequest E p reqType cgrEv cgrArgs st)
           = fst (finishRequest E p reqType cgrEv cgrArgs st')
       \<and> sameButWarning (snd (finishRequest E p reqType cgrEv cgrArgs st))
            (snd (finishRequest E p reqType cgrEv cgrArgs st'))"
  using assms
  by (auto simp: finishRequest_def sessionCall_def addLog_def Let_def
           sameButWarning_def otherLogs_def setCGRReplyError_def extractWarning_def
           split: option.splits prod.splits)

lemma prepareAction_withoutExtractError:
  assumes "prepareAction E p st1 = (reqType, cgrEv, cgrArgs, opts, st3)"
  shows "\<exists>st3'. prepareAction (withoutExtractError E) p st1 = (reqType, cgrEv, cgrArgs, opts, st3')
           \<and> sameButWarning st3 st3'"
  using assms
  by (auto simp: prepareAction_def withoutExtractError_def Let_def addLog_def
        sameButWarning_def otherLogs_def extractWarning_def
      split: prod.splits if_splits)

text \<open>
  Whatever the extraction of the arguments returns as its error, processRequest
  behaves as with the same extracted arguments and no error: the same outcome
  \<open>(processed, err)\<close>, the same agent request, reply packet and RPCs, and the same log
  but for the warning; and when the extraction is reached and fails, the warning is
  logged. (\<open>withoutExtractError E\<close> is \<open>E\<close> with the extraction's error replaced by nil.)
\<close>

lemma extraction_error_alone:
  "fst (processRequest E req p st) = fst (processRequest (withoutExtractError E) req p st)
   \<and> sameButWarning (snd (processRequest E req p st))
        (snd (processRequest (withoutExtractError E) req p st))
   \<and> (matches E p st \<and> fst (SetFields E (RequestFields p) (agReq st)) = None
        \<and> snd (fst (ExtractArgsFromOpts E
               (NMAsMapInterface E (Opts (snd (SetFields E (RequestFields p) (agReq st)))))
               (HasKey (Flags p) MetaDispatchers)
               (reqTypeOf (Flags p) = MetaAuthorize \<or> reqTypeOf (Flags p) = MetaMessage
                \<or> reqTypeOf (Flags p) = MetaEvent))) \<noteq> None
      \<longrightarrow> extractWarning \<in> set (logs (snd (processRequest E req p st))))"
proof -
  let ?E' = "withoutExtractError E"
  have env: "filterS_Pass ?E' = filterS_Pass E" "SetFields ?E' = SetFields E"
    "connMgr_Call ?E' = connMgr_Call E" "radauthReq ?E' = radauthReq E"
    by (simp_all add: withoutExtractError_def)
  obtain pass ferr where f: "filterS_Pass E (agTenant (agReq st)) (Filters p) (agReq st) = (pass, ferr)"
    by (cases "filterS_Pass E (agTenant (agReq st)) (Filters p) (agReq st)")
  obtain serr ar where sf: "SetFields E (RequestFields p) (agReq st) = (serr, ar)"
    by (cases "SetFields E (RequestFields p) (agReq st)")
  obtain reqType cgrEv cgrArgs opts st3 where
    pa: "prepareAction E p (st\<lparr>agReq := ar\<rparr>) = (reqType, cgrEv, cgrArgs, opts, st3)"
    by (cases "prepareAction E p (st\<lparr>agReq := ar\<rparr>)")
  from prepareAction_withoutExtractError[OF pa] obtain st3' where
    pa': "prepareAction ?E' p (st\<lparr>agReq := ar\<rparr>) = (reqType, cgrEv, cgrArgs, opts, st3')"
    and same3: "sameButWarning st3 st3'"
    by blast
  obtain r cgrEv1 st4 where
    act: "processAction E req p reqType cgrEv cgrArgs opts st3 = (r, cgrEv1, st4)"
    by (cases "processAction E req p reqType cgrEv cgrArgs opts st3")
  obtain r' cgrEv1' st4' where
    act': "processAction E req p reqType cgrEv cgrArgs opts st3' = (r', cgrEv1', st4')"
    by (cases "processAction E req p reqType cgrEv cgrArgs opts st3'")
  from processAction_sameButWarning[OF same3, of E req p reqType cgrEv cgrArgs opts] act act'
  have eq4: "r' = r" "cgrEv1' = cgrEv1" and same4: "sameButWarning st4 st4'"
    by simp_all
  note fin = finishRequest_sameButWarning[OF same4, of E p reqType cgrEv1 cgrArgs]
  have refl: "sameButWarning s s" for s by (simp add: sameButWarning_def)
  have run: "processRequest E req p st =
      (if ferr \<noteq> None \<or> \<not> pass then (Returned pass ferr, st)
       else case serr of
              Some e \<Rightarrow> (Returned False (Some e), st\<lparr>agReq := ar\<rparr>)
            | None \<Rightarrow>
               (case r of ActPanic \<Rightarrow> (Panicked, st4)
                | ActReturn b e \<Rightarrow> (Returned b e, st4)
                | ActDone \<Rightarrow> finishRequest E p reqType cgrEv1 cgrArgs st4))"
    using f sf pa act by (simp add: processRequest_def split: option.splits actres.splits)
  have run': "processRequest ?E' req p st =
      (if ferr \<noteq> None \<or> \<not> pass then (Returned pass ferr, st)
       else case serr of
              Some e \<Rightarrow> (Returned False (Some e), st\<lparr>agReq := ar\<rparr>)
            | None \<Rightarrow>
               (case r of ActPanic \<Rightarrow> (Panicked, st4')
                | ActReturn b e \<Rightarrow> (Returned b e, st4')
                | ActDone \<Rightarrow> finishRequest E p reqType cgrEv1 cgrArgs st4'))"
    using f sf pa' act' eq4 processAction_env[OF env(3,4)] finishRequest_env[OF env(3,2)]
    by (simp add: processRequest_def env split: option.splits actres.splits)
  have one: "fst (processRequest E req p st) = fst (processRequest ?E' req p st)"
    unfolding run run' using fin by (simp split: option.splits actres.splits)
  have two: "sameButWarning (snd (processRequest E req p st)) (snd (processRequest ?E' req p st))"
    unfolding run run' using fin same4 refl by (simp split: option.splits actres.splits)
  have three: "extractWarning \<in> set (logs (snd (processRequest E req p st)))"
    if m: "matches E p st" and ok: "fst (SetFields E (RequestFields p) (agReq st)) = None"
      and x: "snd (fst (ExtractArgsFromOpts E
               (NMAsMapInterface E (Opts (snd (SetFields E (RequestFields p) (agReq st)))))
               (HasKey (Flags p) MetaDispatchers)
               (reqTypeOf (Flags p) = MetaAuthorize \<or> reqTypeOf (Flags p) = MetaMessage
                \<or> reqTypeOf (Flags p) = MetaEvent))) \<noteq> None"
  proof -
    have w3: "extractWarning \<in> set (logs st3)"
      using pa x sf
      by (auto simp: prepareAction_def Let_def addLog_def extractWarning_def
            split: prod.splits if_splits)
    have grow4: "set (logs st3) \<subseteq> set (logs st4)"
      using act
      by (cases "switchCase reqType")
         (auto simp: processAction_def callSession_eq radauthCase_def addLog_def Let_def
            setCGRReplyError_def split: option.splits prod.splits if_splits)
    have grow5: "set (logs st4) \<subseteq> set (logs (snd (finishRequest E p reqType cgrEv1 cgrArgs st4)))"
      by (auto simp: finishRequest_def sessionCall_def addLog_def Let_def
            setCGRReplyError_def split: option.splits prod.splits if_splits)
    from m f have "ferr = None" "pass" by (auto simp: matches_def)
    moreover from ok sf have "serr = None" by simp
    ultimately show ?thesis
      unfolding run using w3 grow4 grow5 by (auto split: actres.splits)
  qed
  from one two three show ?thesis by blast
qed



subsection \<open>The loop over the processors\<close>

lemma finishRequest_outcome:
  "fst (finishRequest E p reqType cgrEv cgrArgs st) = Returned b None \<Longrightarrow> b"
  by (auto simp: finishRequest_def Let_def split: prod.splits option.splits if_splits)

lemma matching_processed_or_error:
  assumes "matches E p st" and "fst (processRequest E req p st) = Returned b None"
  shows "b"
proof -
  obtain serr ar where sf: "SetFields E (RequestFields p) (agReq st) = (serr, ar)"
    by (cases "SetFields E (RequestFields p) (agReq st)")
  obtain reqType cgrEv cgrArgs opts st3 where
    pa: "prepareAction E p (st\<lparr>agReq := ar\<rparr>) = (reqType, cgrEv, cgrArgs, opts, st3)"
    by (cases "prepareAction E p (st\<lparr>agReq := ar\<rparr>)")
  obtain r cgrEv1 st4 where
    act: "processAction E req p reqType cgrEv cgrArgs opts st3 = (r, cgrEv1, st4)"
    by (cases "processAction E req p reqType cgrEv cgrArgs opts st3")
  show ?thesis
  proof (cases serr)
    case (Some e)
    with assms sf show ?thesis by (simp add: processRequest_def matches_def)
  next
    case None
    note run = processRequest_reaches_switch[OF assms(1) sf[unfolded None] pa, of req]
    show ?thesis
    proof (cases r)
      case ActDone
      with run act assms(2) finishRequest_outcome show ?thesis by auto
    next
      case (ActReturn b' e)
      with run act assms(2) processAction_known[OF act[unfolded ActReturn]] show ?thesis
        by auto
    next
      case ActPanic
      with run act assms(2) show ?thesis by simp
    qed
  qed
qed

lemma processed_matches:
  "processRequest E req p st = (Returned True None, st1) \<Longrightarrow> matches E p st"
  by (cases "filterS_Pass E (agTenant (agReq st)) (Filters p) (agReq st)")
     (auto simp: processRequest_def matches_def split: if_splits)

lemma ran_continue:
  "\<forall>q \<in> set (butlast (fst (processorsLoop E seed req ps processed st))).
      GetBool (Flags q) MetaContinue"
proof (induction ps arbitrary: processed st)
  case Nil
  show ?case by simp
next
  case (Cons p ps)
  let ?st0 = "iterationState E seed p st"
  obtain out st1 where run: "processRequest E req p ?st0 = (out, st1)"
    by (cases "processRequest E req p ?st0")
  show ?case
  proof (cases out)
    case Panicked
    with run show ?thesis by (simp add: Let_def)
  next
    case (Returned lclProcessed err)
    show ?thesis
    proof (cases "err \<noteq> None \<or> (lclProcessed \<and> \<not> GetBool (Flags p) MetaContinue)")
      case True
      with run Returned show ?thesis by (simp add: Let_def)
    next
      case False
      let ?processed1 = "if lclProcessed then lclProcessed else processed"
      obtain ran1 res where rest: "processorsLoop E seed req ps ?processed1 st1 = (ran1, res)"
        by (cases "processorsLoop E seed req ps ?processed1 st1")
      have loop: "fst (processorsLoop E seed req (p # ps) processed st)
                    = (if matches E p ?st0 then [p] else []) @ ran1"
        using run Returned False rest by (auto simp: Let_def)
      have ih: "\<forall>q \<in> set (butlast ran1). GetBool (Flags q) MetaContinue"
        using Cons.IH[of ?processed1 st1] rest by simp
      have "GetBool (Flags p) MetaContinue" if "matches E p ?st0"
        using matching_processed_or_error[OF that, of req lclProcessed] run Returned False
        by auto
      with ih show ?thesis unfolding loop by (auto simp: butlast_append)
    qed
  qed
qed

text \<open>
  Claim C6. In the loop of either handler (\<open>seed\<close> is what tells them apart), after a
  processor reported itself processed without error the loop goes on with the remaining
  processors if the processor's flags include \<open>*continue\<close>, and ends otherwise. Hence
  of the processors whose filters matched, every one but the last has \<open>*continue\<close>
  among its flags: without it no second matching processor runs.
\<close>

theorem continue_flag:
  "(processRequest E req p (iterationState E seed p st) = (Returned True None, st1) \<longrightarrow>
      processorsLoop E seed req (p # ps) processed st =
        (if GetBool (Flags p) MetaContinue
         then (case processorsLoop E seed req ps True st1 of (ran1, res) \<Rightarrow> (p # ran1, res))
         else ([p], Returned True None, st1)))
   \<and> (\<forall>q \<in> set (butlast (fst (processorsLoop E seed req ps processed st))).
         GetBool (Flags q) MetaContinue)"
  using ran_continue[of E seed req ps processed st] processed_matches
  by (auto simp: Let_def split: prod.splits)

lemma exNoneContinue_flags:
  "reqTypeOf (Flags exNoneContinue) = META_NONE" "\<not> HasKey (Flags exNoneContinue) MetaLog"
  "\<not> HasKey (Flags exNoneContinue) MetaCDRs" "GetBool (Flags exNoneContinue) MetaContinue"
  by (simp_all add: exNoneContinue_def exProcessor_def reqTypeOf_def reqTypes_def HasKey_def
        GetBool_def meta_defs flag_defs)

lemma exTerminate_no_continue: "\<not> GetBool (Flags exTerminate) MetaContinue"
  by (simp add: exTerminate_def exProcessor_def HasKey_def GetBool_def meta_defs flag_defs)

lemma exEnv_matches: "matches exEnv p st"
  by (simp add: matches_def exEnv_simps)

lemma exNoneContinue_processed:
  "\<exists>st1. processRequest exEnv req exNoneContinue st = (Returned True None, st1)"
  by (simp add: processRequest_def prepareAction_def processAction_def switchCase_simps
        finishRequest_def Let_def exEnv_simps exNoneContinue_flags not_dryrun)

lemma exTerminate_processed:
  "\<exists>st1. processRequest exEnv req exTerminate st = (Returned True None, st1)"
  by (simp add: processRequest_def prepareAction_def processAction_def switchCase_simps
        callSession_eq finishRequest_def sessionCall_def Let_def exEnv_simps
        exTerminate_flags not_dryrun)

text \<open>
  The theorem at work: a \<open>*none, *continue\<close> processor followed by a \<open>*terminate\<close>
  processor, both of which run; in the other order only the first runs.
\<close>

theorem continue_flag_witness:
  "GetBool (Flags exNoneContinue) MetaContinue
   \<and> fst (processorsLoop exEnv seedRadAuth exPacket [exNoneContinue, exTerminate] False exState)
       = [exNoneContinue, exTerminate]
   \<and> fst (processorsLoop exEnv seedRadAuth exPacket [exTerminate, exNoneContinue] False exState)
       = [exTerminate]"
proof -
  obtain s1 where r1: "processRequest exEnv exPacket exNoneContinue
        (iterationState exEnv seedRadAuth exNoneContinue exState) = (Returned True None, s1)"
    using exNoneContinue_processed by blast
  obtain s2 where r2: "processRequest exEnv exPacket exTerminate
        (iterationState exEnv seedRadAuth exTerminate s1) = (Returned True None, s2)"
    using exTerminate_processed by blast
  obtain s3 where r3: "processRequest exEnv exPacket exTerminate
        (iterationState exEnv seedRadAuth exTerminate exState) = (Returned True None, s3)"
    using exTerminate_processed by blast
  have two: "fst (processorsLoop exEnv seedRadAuth exPacket [exNoneContinue, exTerminate]
                    False exState) = [exNoneContinue, exTerminate]"
    using r1 r2
    by (simp add: Let_def exEnv_matches exNoneContinue_flags exTerminate_no_continue)
  have one: "fst (processorsLoop exEnv seedRadAuth exPacket [exTerminate, exNoneContinue]
                    False exState) = [exTerminate]"
    using continue_flag[of exEnv exPacket exTerminate seedRadAuth exState s3
            "[exNoneContinue]" False] r3 exTerminate_no_continue
    by simp
  from continue_flag[of exEnv exPacket exTerminate seedRadAuth exState s3
         "[exNoneContinue, exTerminate]" False]
  have "GetBool (Flags exNoneContinue) MetaContinue"
    unfolding two by simp
  with one two show ?thesis by simp
qed

subsection \<open>The seeding of \<open>*radReqType\<close>\<close>

lemma seeded: "Vars (agReq (iterationState E seedRadAuth p st)) MetaRadReqType
                 = Some (IString MetaRadAuth)"
  by (simp add: iterationState_def seedRadAuth_def)

lemma processAction_seenSeeded:
  "processAction (seenSeeded E) req p reqType cgrEv cgrArgs opts st
     = processAction E req p reqType cgrEv cgrArgs opts st"
  by (rule processAction_env) (simp_all add: seenSeeded_def)

lemma finishRequest_seenSeeded:
  "finishRequest (seenSeeded E) p reqType cgrEv cgrArgs st
     = finishRequest E p reqType cgrEv cgrArgs st"
  by (rule finishRequest_env) (simp_all add: seenSeeded_def)

lemma prepareAction_seenSeeded: "prepareAction (seenSeeded E) p st = prepareAction E p st"
  by (simp add: prepareAction_def seenSeeded_def)

lemma processRequest_seenSeeded:
  assumes "Vars (agReq st) MetaRadReqType = Some (IString MetaRadAuth)"
  shows "processRequest (seenSeeded E) req p st = processRequest E req p st"
    and "matches (seenSeeded E) p st = matches E p st"
proof -
  have f: "filterS_Pass (seenSeeded E) (agTenant (agReq st)) (Filters p) (agReq st)
             = filterS_Pass E (agTenant (agReq st)) (Filters p) (agReq st)"
    using assms by (simp add: seenSeeded_def)
  have sf: "SetFields (seenSeeded E) = SetFields E" by (simp add: seenSeeded_def)
  show "processRequest (seenSeeded E) req p st = processRequest E req p st"
    unfolding processRequest_def f sf prepareAction_seenSeeded processAction_seenSeeded
      finishRequest_seenSeeded ..
  show "matches (seenSeeded E) p st = matches E p st"
    by (simp add: matches_def f)
qed

lemma iterationState_seenSeeded:
  "iterationState (seenSeeded E) seed p st = iterationState E seed p st"
  by (simp add: iterationState_def NewAgentRequest_def seenSeeded_def)

lemma processorsLoop_seenSeeded:
  "processorsLoop (seenSeeded E) seedRadAuth req ps processed st
     = processorsLoop E seedRadAuth req ps processed st"
proof (induction ps arbitrary: processed st)
  case Nil
  show ?case by simp
next
  case (Cons p ps)
  let ?st0 = "iterationState E seedRadAuth p st"
  note s = processRequest_seenSeeded(1)[OF seeded[of E p st]]
    processRequest_seenSeeded(2)[OF seeded[of E p st]]
  obtain out st1 where run: "processRequest E req p ?st0 = (out, st1)"
    by (cases "processRequest E req p ?st0")
  show ?case
  proof (cases out)
    case Panicked
    with run s show ?thesis by (simp add: Let_def iterationState_seenSeeded)
  next
    case (Returned lclProcessed err)
    with run s Cons.IH show ?thesis by (simp add: Let_def iterationState_seenSeeded)
  qed
qed

text \<open>
  Claim C5, as amended. In handleAuth every processor is run on an agent request whose
  \<open>*vars.*radReqType\<close> is \<open>*radAuth\<close>: the handler is the same with a filter service
  that refuses every other request. handleAcct seeds nothing: a processor is run on the
  \<open>*vars\<close> as the processors before it left them, which at first hold \<open>RemoteHost\<close> only.
\<close>

theorem radReqType_seeding:
  "Vars (agReq (iterationState E seedRadAuth p st)) MetaRadReqType = Some (IString MetaRadAuth)
   \<and> handleAuth E ps req
       = afterLoop E (snd (processorsLoop (seenSeeded E) seedRadAuth req ps False
                             (newState req AccessAccept)))
   \<and> handleAcct E ps req
       = afterLoop E (snd (processorsLoop E (\<lambda>ar. ar) req ps False
                             (newState req AccountingResponse)))
   \<and> Vars (agReq (iterationState E (\<lambda>ar. ar) p st)) = Vars (agReq st)
   \<and> Vars (agReq (newState req AccountingResponse)) = [RemoteHost \<mapsto> IString (RemoteAddr req)]"
proof (intro conjI)
  show "Vars (agReq (iterationState E seedRadAuth p st)) MetaRadReqType
          = Some (IString MetaRadAuth)"
    by (rule seeded)
  show "handleAuth E ps req
       = afterLoop E (snd (processorsLoop (seenSeeded E) seedRadAuth req ps False
                             (newState req AccessAccept)))"
    by (simp add: handleAuth_def processorsLoop_seenSeeded)
  show "handleAcct E ps req
       = afterLoop E (snd (processorsLoop E (\<lambda>ar. ar) req ps False
                             (newState req AccountingResponse)))"
    by (simp add: handleAcct_def)
  show "Vars (agReq (iterationState E (\<lambda>ar. ar) p st)) = Vars (agReq st)"
    by (simp add: iterationState_def NewAgentRequest_def)
  show "Vars (agReq (newState req AccountingResponse))
          = [RemoteHost \<mapsto> IString (RemoteAddr req)]"
    by (simp add: newState_def)
qed

text \<open>The theorem at work, on the example packets.\<close>

theorem radReqType_seeding_witness:
  "Vars (agReq (iterationState exEnv seedRadAuth exTerminate exState)) MetaRadReqType
     = Some (IString MetaRadAuth)
   \<and> Vars (agReq (iterationState exEnv (\<lambda>ar. ar) exTerminate
                     (newState exAcctPacket AccountingResponse))) MetaRadReqType = None"
  using radReqType_seeding[of exEnv exTerminate exState ps exAcctPacket]
    radReqType_seeding[of exEnv exTerminate "newState exAcctPacket AccountingResponse" ps exAcctPacket]
  by (simp add: MetaRadReqType_def RemoteHost_def)

lemma exNone_flags:
  "reqTypeOf (Flags exNone) = META_NONE" "\<not> HasKey (Flags exNone) MetaLog"
  "\<not> HasKey (Flags exNone) MetaCDRs" "\<not> GetBool (Flags exNone) MetaContinue"
  "\<not> HasKey (Flags exNone) MetaDispatchers"
  by (simp_all add: exNone_def exProcessor_def reqTypeOf_def reqTypes_def HasKey_def
        GetBool_def meta_defs flag_defs)

lemma exNeedsReqType_simps:
  "filterS_Pass exNeedsReqType tnt fltrs ar = (Vars ar MetaRadReqType \<noteq> None, None)"
  "SetFields exNeedsReqType flds ar = (None, ar)"
  "radReplyAppendAttributes exNeedsReqType rpl0 nm = (None, rpl0)"
  by (simp_all add: exNeedsReqType_def exEnv_def)

lemma exNone_unseeded:
  "Vars (agReq st) MetaRadReqType = None
     \<Longrightarrow> processRequest exNeedsReqType req exNone st = (Returned False None, st)"
  by (simp add: processRequest_def exNeedsReqType_simps)

lemma exNone_seeded:
  "Vars (agReq st) MetaRadReqType = Some v
     \<Longrightarrow> \<exists>st1. processRequest exNeedsReqType req exNone st = (Returned True None, st1)
               \<and> rpl st1 = rpl st \<and> Reply (agReq st1) = Reply (agReq st)"
  by (simp add: processRequest_def prepareAction_def processAction_def switchCase_simps
        finishRequest_def Let_def exNeedsReqType_simps exNone_flags not_dryrun addLog_def
      split: prod.splits)

text \<open>
  Claim C5 as stated fails for accounting: the packet carries \<open>Acct-Status-Type = Start\<close>,
  yet the first processor of handleAcct sees no \<open>*radReqType\<close>. With a filter that
  asks for the variable, handleAcct finds no processor and gives no reply, where
  handleAuth replies.
\<close>

theorem radReqType_seeding_counterexample:
  "map_of (AVPs exAcctPacket) ''Acct-Status-Type'' = Some ''Start''
   \<and> Vars (agReq (iterationState exNeedsReqType (\<lambda>ar. ar) exNone
                     (newState exAcctPacket AccountingResponse))) MetaRadReqType = None
   \<and> fst (handleAcct exNeedsReqType [exNone] exAcctPacket) = Handled None None
   \<and> fst (handleAuth exNeedsReqType [exNone] exPacket)
       = Handled (Some \<lparr>RemoteAddr = RemoteAddr exPacket, Code = AccessAccept, AVPs = []\<rparr>) None"
proof (intro conjI)
  let ?acct = "iterationState exNeedsReqType (\<lambda>ar. ar) exNone
                 (newState exAcctPacket AccountingResponse)"
  let ?auth = "iterationState exNeedsReqType seedRadAuth exNone (newState exPacket AccessAccept)"
  show "map_of (AVPs exAcctPacket) ''Acct-Status-Type'' = Some ''Start''"
    by (simp add: exAcctPacket_def)
  show unseeded: "Vars (agReq ?acct) MetaRadReqType = None"
    by (simp add: iterationState_def NewAgentRequest_def newState_def MetaRadReqType_def
          RemoteHost_def)
  from exNone_unseeded[OF unseeded]
  show "fst (handleAcct exNeedsReqType [exNone] exAcctPacket) = Handled None None"
    by (simp add: handleAcct_def afterLoop_def Let_def exNone_flags addLog_def)
  from exNone_seeded[OF seeded[of exNeedsReqType exNone "newState exPacket AccessAccept"],
      where req = exPacket]
  obtain st1 where "processRequest exNeedsReqType exPacket exNone ?auth = (Returned True None, st1)"
    "rpl st1 = rpl ?auth" "Reply (agReq st1) = Reply (agReq ?auth)"
    by blast
  then show "fst (handleAuth exNeedsReqType [exNone] exPacket)
       = Handled (Some \<lparr>RemoteAddr = RemoteAddr exPacket, Code = AccessAccept, AVPs = []\<rparr>) None"
    by (simp add: handleAuth_def afterLoop_def Let_def exNone_flags exNeedsReqType_simps
          iterationState_def newState_def)
qed

section \<open>Properties of the loader\<close>

subsection \<open>What the functions leave unchanged\<close>

















subsection \<open>The row loop ends\<close>









subsection \<open>The lock file\<close>


lemma lockFilename_unlockFolder: "lockFilename (unlockFolder ldr) = lockFilename ldr"
  by (simp add: unlockFolder_def)



subsection \<open>The store invocations of a type\<close>



lemma storesAfter_weaken: "storesAfter a b True \<Longrightarrow> storesAfter a b ok"
  by (auto simp: storesAfter_def)













subsection \<open>A row with a read error\<close>

text \<open>
  Claim C3 at a failing input: two readers, the first gives a record and the second a
  read error for the same row. The row is read to its end (every reader has advanced
  by one line) and the warning is logged, but the data decoded from the first file is
  buffered and stored: the row is not discarded. The same holds when a third reader,
  already at its end, is visited after them.
\<close>

theorem partial_row_is_stored:
  "stored (snd (processContent exLoaderEnv ''*attributes'' ''*none'' exTwoReaders))
     = [(''*attributes'',
         (''cgrates.org:ATTR_1'', [[(''Tenant'', ''cgrates.org''), (''ID'', ''ATTR_1'')]]),
         None)]
   \<and> fst (readRow exLoaderEnv (readersOf exTwoReaders ''*attributes'') False [])
       = RowRead
   \<and> ldrLogs (snd (processContent exLoaderEnv ''*attributes'' ''*none'' exTwoReaders))
       = [LogWarning ''reading line'']
   \<and> stored (snd (processContent exLoaderEnv ''*attributes'' ''*none'' exThreeReaders))
       = [(''*attributes'',
           (''cgrates.org:ATTR_1'', [[(''Tenant'', ''cgrates.org''), (''ID'', ''ATTR_1'')]]),
           None)]"
  by code_simp

subsection \<open>The buffer of rows\<close>











end
